theory Spec2Isabelle
  imports Main "HOL-Library.AList"
begin

section \<open>Python values, exceptions and library functions\<close>

text \<open>
  A Python \<open>str\<close> is a \<open>string\<close>: one \<open>char\<close> stands for one character of the
  \<open>str\<close>. Exceptions are values of \<open>exn\<close>; a computation that may raise returns
  \<open>exn + 'a\<close>, with \<open>Inl\<close> for the exception raised.

  \<open>ProgrammingError\<close> is the exception of the SQL toolkit that wraps an error of the
  DBAPI driver in its attribute \<open>orig\<close>. It carries what \<open>e.orig.message\<close> yields:
  the message of the original error, or nothing when the original error has no attribute
  \<open>message\<close>.
\<close>

datatype exn =
    ValueError string
  | TypeError
  | AttributeError
  | NoSuchTableError string
  | ProgrammingError "string option"
  | OtherError string

typedecl pyfloat

text \<open>What \<open>json.loads\<close> produces: Python's rendering of a JSON document.\<close>

datatype json =
    JNull
  | JBool bool
  | JInt int
  | JFloat pyfloat
  | JStr string
  | JList "json list"
  | JDict "(string \<times> json) list"

text \<open>The four authentication objects of \<open>trino.auth\<close> built by the dialect.\<close>

datatype authentication =
    BasicAuthentication string string
  | JWTAuthentication string
  | CertificateAuthentication string string
  | OAuth2Authentication

datatype pyval =
    PNone
  | PBool bool
  | PInt int
  | PStr string
  | PAuth authentication
  | PJson json
  | PList "pyval list"
  | PTuple "pyval list"

text \<open>
  \<open>urllib.parse.unquote\<close> and \<open>json.loads\<close> belong to the standard library and are
  parameters of the model: \<open>unquote_escaped\<close> is \<open>unquote\<close> on a \<open>str\<close> that
  contains \<open>%\<close> (it decodes the escapes through UTF-8), \<open>json_loads\<close> raises on a
  malformed document.
\<close>

record pylib =
  unquote_escaped :: "string \<Rightarrow> string"
  json_loads :: "string \<Rightarrow> exn + json"

text \<open>
  \<open>unquote_plus(string)\<close> is \<open>unquote(string.replace('+', ' '))\<close>, and \<open>unquote\<close>
  returns a \<open>str\<close> without \<open>%\<close> as it is.
\<close>

definition unquote_plus :: "pylib \<Rightarrow> string \<Rightarrow> string" where
  "unquote_plus L s =
     (let s' = map (\<lambda>c. if c = CHR ''+'' then CHR '' '' else c) s
      in if CHR ''%'' \<in> set s' then unquote_escaped L s' else s')"

definition and_then :: "exn + 'a \<Rightarrow> ('a \<Rightarrow> exn + 'b) \<Rightarrow> exn + 'b" where
  "and_then m f = (case m of Inl e \<Rightarrow> Inl e | Inr x \<Rightarrow> f x)"

text \<open>A list comprehension whose body may raise stops at the first exception.\<close>

fun traverse :: "('a \<Rightarrow> exn + 'b) \<Rightarrow> 'a list \<Rightarrow> exn + 'b list" where
  "traverse f [] = Inr []"
| "traverse f (x # xs) =
     and_then (f x) (\<lambda>y. and_then (traverse f xs) (\<lambda>ys. Inr (y # ys)))"

text \<open>
  Truthiness of an \<open>Optional[str]\<close> and of an \<open>Optional[int]\<close>: \<open>None\<close>, the empty
  string and \<open>0\<close> are false. \<open>truthy_str\<close> returns the string when it is true.
\<close>

definition truthy_str :: "string option \<Rightarrow> string option" where
  "truthy_str s = (case s of None \<Rightarrow> None | Some x \<Rightarrow> if x = [] then None else Some x)"

definition truthy_int :: "int option \<Rightarrow> int option" where
  "truthy_int n = (case n of None \<Rightarrow> None | Some x \<Rightarrow> if x = 0 then None else Some x)"

text \<open>\<open>a or b\<close> on optional strings, and \<open>a or "literal"\<close>.\<close>

definition py_or :: "string option \<Rightarrow> string option \<Rightarrow> string option" where
  "py_or a b = (case truthy_str a of Some x \<Rightarrow> Some x | None \<Rightarrow> b)"

definition py_or_str :: "string option \<Rightarrow> string \<Rightarrow> string" where
  "py_or_str a b = (case truthy_str a of Some x \<Rightarrow> x | None \<Rightarrow> b)"

text \<open>An optional string as a Python value, and as formatted by an f-string.\<close>

definition opt_str :: "string option \<Rightarrow> pyval" where
  "opt_str s = (case s of None \<Rightarrow> PNone | Some x \<Rightarrow> PStr x)"

definition format_opt :: "string option \<Rightarrow> string" where
  "format_opt s = (case s of None \<Rightarrow> ''None'' | Some x \<Rightarrow> x)"

text \<open>\<open>s.split(sep)\<close> for a separator of one character; the result is never empty.\<close>

fun py_split :: "char \<Rightarrow> string \<Rightarrow> string list" where
  "py_split sep [] = [[]]"
| "py_split sep (c # cs) =
     (if c = sep then [] # py_split sep cs
      else (c # hd (py_split sep cs)) # tl (py_split sep cs))"

text \<open>
  Iterating a value returned by \<open>json.loads\<close>: a list yields its items, a dict its
  keys, a str its characters; anything else is not iterable.
\<close>

fun py_iter :: "json \<Rightarrow> exn + json list" where
  "py_iter (JList xs) = Inr xs"
| "py_iter (JDict kvs) = Inr (map (\<lambda>kv. JStr (fst kv)) kvs)"
| "py_iter (JStr s) = Inr (map (\<lambda>c. JStr [c]) s)"
| "py_iter JNull = Inl TypeError"
| "py_iter (JBool b) = Inl TypeError"
| "py_iter (JInt i) = Inl TypeError"
| "py_iter (JFloat x) = Inl TypeError"

section \<open>The URL and the dialect object\<close>

text \<open>
  \<open>sqlalchemy.engine.url.URL\<close>: every component is optional; a query value is a
  \<open>str\<close> or a tuple of \<open>str\<close>.
\<close>

datatype qval = QStr string | QTuple "string list"

record url =
  username :: "string option"
  password :: "string option"
  host :: "string option"
  port :: "int option"
  database :: "string option"
  query :: "string \<rightharpoonup> qval"

typedecl callable

record dialect =
  json_serializer :: "callable option"
  json_deserializer :: "callable option"

type_synonym kwargs = "(string \<times> pyval) list"

text \<open>\<open>unquote_plus\<close> and \<open>json.loads\<close> applied to a query value: a tuple has no
  \<open>replace\<close> method, and is not a JSON document.\<close>

fun unquote_plus_q :: "pylib \<Rightarrow> qval \<Rightarrow> exn + string" where
  "unquote_plus_q L (QStr s) = Inr (unquote_plus L s)"
| "unquote_plus_q L (QTuple ss) = Inl AttributeError"

fun json_loads_q :: "pylib \<Rightarrow> qval \<Rightarrow> exn + json" where
  "json_loads_q L (QStr s) = json_loads L s"
| "json_loads_q L (QTuple ss) = Inl TypeError"

section \<open>create_connect_args\<close>

text \<open>Each block of the method is one step on \<open>kwargs\<close>, in the order of the source.\<close>

definition kw_port :: "url \<Rightarrow> kwargs \<Rightarrow> exn + kwargs" where
  "kw_port u kwargs =
     (case truthy_int (port u) of
        Some p \<Rightarrow> Inr (AList.update ''port'' (PInt p) kwargs)
      | None \<Rightarrow> Inr kwargs)"

definition kw_database :: "pylib \<Rightarrow> url \<Rightarrow> kwargs \<Rightarrow> exn + kwargs" where
  "kw_database L u kwargs =
     (let db_parts = py_split CHR ''/'' (py_or_str (database u) ''system'') in
      if length db_parts = 1 then
        Inr (AList.update ''catalog'' (PStr (unquote_plus L (db_parts ! 0))) kwargs)
      else if length db_parts = 2 then
        Inr (AList.update ''schema'' (PStr (unquote_plus L (db_parts ! 1)))
              (AList.update ''catalog'' (PStr (unquote_plus L (db_parts ! 0))) kwargs))
      else Inl (ValueError (''Unexpected database format '' @ format_opt (database u))))"

definition kw_user :: "pylib \<Rightarrow> url \<Rightarrow> kwargs \<Rightarrow> exn + kwargs" where
  "kw_user L u kwargs =
     (case truthy_str (username u) of
        Some n \<Rightarrow> Inr (AList.update ''user'' (PStr (unquote_plus L n)) kwargs)
      | None \<Rightarrow> Inr kwargs)"

definition kw_password :: "pylib \<Rightarrow> url \<Rightarrow> kwargs \<Rightarrow> exn + kwargs" where
  "kw_password L u kwargs =
     (case truthy_str (password u) of
        None \<Rightarrow> Inr kwargs
      | Some p \<Rightarrow>
          (case truthy_str (username u) of
             None \<Rightarrow>
               Inl (ValueError ''Username is required when specify password in connection URL'')
           | Some n \<Rightarrow>
               Inr (AList.update ''auth''
                     (PAuth (BasicAuthentication (unquote_plus L n) (unquote_plus L p))) kwargs)))"

definition kw_access_token :: "pylib \<Rightarrow> url \<Rightarrow> kwargs \<Rightarrow> exn + kwargs" where
  "kw_access_token L u kwargs =
     (case query u ''access_token'' of
        None \<Rightarrow> Inr kwargs
      | Some v \<Rightarrow>
          and_then (unquote_plus_q L v)
            (\<lambda>t. Inr (AList.update ''auth'' (PAuth (JWTAuthentication t)) kwargs)))"

definition kw_cert :: "pylib \<Rightarrow> url \<Rightarrow> kwargs \<Rightarrow> exn + kwargs" where
  "kw_cert L u kwargs =
     (case query u ''cert'' of
        None \<Rightarrow> Inr kwargs
      | Some c \<Rightarrow>
          (case query u ''key'' of
             None \<Rightarrow> Inr kwargs
           | Some k \<Rightarrow>
               and_then (unquote_plus_q L c) (\<lambda>c'.
               and_then (unquote_plus_q L k) (\<lambda>k'.
                 Inr (AList.update ''auth''
                       (PAuth (CertificateAuthentication c' k')) kwargs)))))"

definition kw_external :: "url \<Rightarrow> kwargs \<Rightarrow> exn + kwargs" where
  "kw_external u kwargs =
     (case query u ''externalAuthentication'' of
        None \<Rightarrow> Inr kwargs
      | Some v \<Rightarrow> Inr (AList.update ''auth'' (PAuth OAuth2Authentication) kwargs))"

definition kw_source :: "pylib \<Rightarrow> url \<Rightarrow> kwargs \<Rightarrow> exn + kwargs" where
  "kw_source L u kwargs =
     (case query u ''source'' of
        Some v \<Rightarrow>
          and_then (unquote_plus_q L v)
            (\<lambda>s. Inr (AList.update ''source'' (PStr s) kwargs))
      | None \<Rightarrow> Inr (AList.update ''source'' (PStr ''trino-sqlalchemy'') kwargs))"

text \<open>
  The options \<open>session_properties\<close>, \<open>http_headers\<close>, \<open>client_tags\<close>,
  \<open>legacy_primitive_types\<close>, \<open>legacy_prepared_statements\<close> and \<open>verify\<close> share one
  shape: \<open>kwargs[key] = json.loads(unquote_plus(url.query[key]))\<close>.
\<close>

definition kw_json :: "pylib \<Rightarrow> url \<Rightarrow> string \<Rightarrow> kwargs \<Rightarrow> exn + kwargs" where
  "kw_json L u key kwargs =
     (case query u key of
        None \<Rightarrow> Inr kwargs
      | Some v \<Rightarrow>
          and_then (unquote_plus_q L v) (\<lambda>s.
          and_then (json_loads L s) (\<lambda>j.
            Inr (AList.update key (PJson j) kwargs))))"

definition kw_extra_credential :: "pylib \<Rightarrow> url \<Rightarrow> kwargs \<Rightarrow> exn + kwargs" where
  "kw_extra_credential L u kwargs =
     (case query u ''extra_credential'' of
        None \<Rightarrow> Inr kwargs
      | Some v \<Rightarrow>
          and_then (unquote_plus_q L v) (\<lambda>s.
          and_then (json_loads L s) (\<lambda>j.
          and_then (py_iter j) (\<lambda>items.
          and_then (traverse py_iter items) (\<lambda>tuples.
            Inr (AList.update ''extra_credential''
                  (PList (map (\<lambda>t. PTuple (map PJson t)) tuples)) kwargs))))))"

definition kw_roles :: "pylib \<Rightarrow> url \<Rightarrow> kwargs \<Rightarrow> exn + kwargs" where
  "kw_roles L u kwargs =
     (case query u ''roles'' of
        None \<Rightarrow> Inr kwargs
      | Some v \<Rightarrow>
          and_then (json_loads_q L v) (\<lambda>j.
            Inr (AList.update ''roles'' (PJson j) kwargs)))"

fun run_steps :: "(kwargs \<Rightarrow> exn + kwargs) list \<Rightarrow> kwargs \<Rightarrow> exn + kwargs" where
  "run_steps [] kwargs = Inr kwargs"
| "run_steps (f # fs) kwargs = and_then (f kwargs) (run_steps fs)"

definition auth_steps :: "pylib \<Rightarrow> url \<Rightarrow> (kwargs \<Rightarrow> exn + kwargs) list" where
  "auth_steps L u =
     [kw_password L u, kw_access_token L u, kw_cert L u, kw_external u]"

definition option_steps :: "pylib \<Rightarrow> url \<Rightarrow> (kwargs \<Rightarrow> exn + kwargs) list" where
  "option_steps L u =
     [kw_source L u,
      kw_json L u ''session_properties'',
      kw_json L u ''http_headers'',
      kw_extra_credential L u,
      kw_json L u ''client_tags'',
      kw_json L u ''legacy_primitive_types'',
      kw_json L u ''legacy_prepared_statements'',
      kw_json L u ''verify'',
      kw_roles L u]"

definition create_connect_args ::
  "pylib \<Rightarrow> dialect \<Rightarrow> url \<Rightarrow> exn + (pyval list \<times> kwargs)" where
  "create_connect_args L self u =
     (let args = [];
          kwargs = [(''host'', opt_str (host u))]
      in and_then
           (run_steps
              ([kw_port u, kw_database L u, kw_user L u] @ auth_steps L u @ option_steps L u)
              kwargs)
           (\<lambda>kwargs. Inr (args, kwargs)))"

text \<open>
  A library instance for evaluating the model on concrete URLs. None of the URLs
  evaluated below has a \<open>%\<close>, so \<open>unquote_escaped\<close> is never reached; its
  \<open>json.loads\<close> knows the documents \<open>true\<close>, \<open>false\<close> and \<open>null\<close> and rejects
  the rest.
\<close>

definition sample_lib :: pylib where
  "sample_lib =
     \<lparr> unquote_escaped = (\<lambda>s. s),
       json_loads = (\<lambda>s. if s = ''true'' then Inr (JBool True)
                          else if s = ''false'' then Inr (JBool False)
                          else if s = ''null'' then Inr JNull
                          else Inl (ValueError ''Expecting value'')) \<rparr>"

definition sample_dialect :: dialect where
  "sample_dialect = \<lparr> json_serializer = None, json_deserializer = None \<rparr>"

definition sample_url :: url where
  "sample_url =
     \<lparr> username = None, password = None, host = Some ''localhost'', port = Some 8080,
       database = None, query = Map.empty \<rparr>"

text \<open>A step keeps a key when it leaves the entry under that key as it was.\<close>

definition keeps :: "string \<Rightarrow> (kwargs \<Rightarrow> exn + kwargs) \<Rightarrow> bool" where
  "keeps k f = (\<forall>kw kw'. f kw = Inr kw' \<longrightarrow> map_of kw' k = map_of kw k)"

text \<open>The value under \<open>auth\<close> after the four authentication steps.\<close>

definition auth_choice :: "pylib \<Rightarrow> url \<Rightarrow> pyval option" where
  "auth_choice L u =
     (if query u ''externalAuthentication'' \<noteq> None then Some (PAuth OAuth2Authentication)
      else case (query u ''cert'', query u ''key'') of
        (Some (QStr c), Some (QStr k)) \<Rightarrow>
          Some (PAuth (CertificateAuthentication (unquote_plus L c) (unquote_plus L k)))
      | _ \<Rightarrow>
        (case query u ''access_token'' of
           Some (QStr t) \<Rightarrow> Some (PAuth (JWTAuthentication (unquote_plus L t)))
         | _ \<Rightarrow>
           (case (truthy_str (username u), truthy_str (password u)) of
              (Some n, Some p) \<Rightarrow>
                Some (PAuth (BasicAuthentication (unquote_plus L n) (unquote_plus L p)))
            | _ \<Rightarrow> None)))"

text \<open>
  URLs with one, two, three and four authentication inputs.
\<close>

definition url_basic :: url where
  "url_basic = sample_url\<lparr>username := Some ''alice'', password := Some ''secret''\<rparr>"

definition url_jwt :: url where
  "url_jwt = url_basic\<lparr>query := [''access_token'' \<mapsto> QStr ''tok'']\<rparr>"

definition url_cert :: url where
  "url_cert = url_basic\<lparr>query := [''access_token'' \<mapsto> QStr ''tok'',
      ''cert'' \<mapsto> QStr ''c.pem'', ''key'' \<mapsto> QStr ''k.pem'']\<rparr>"

definition url_oauth2 :: url where
  "url_oauth2 = url_basic\<lparr>query := [''access_token'' \<mapsto> QStr ''tok'',
      ''cert'' \<mapsto> QStr ''c.pem'', ''key'' \<mapsto> QStr ''k.pem'',
      ''externalAuthentication'' \<mapsto> QStr ''true'']\<rparr>"

section \<open>The connection\<close>

text \<open>
  The connection is supplied from outside. The model keeps what the dialect reads from
  it: the default catalog and schema of the underlying DBAPI connection, the answer of
  the server to a statement (its rows, or the exception it raises), which may depend on
  the statements executed before, and the list of the statements executed so far.

  A statement is its SQL text with its bound parameters; a row lists its columns by name
  in the order of the select list.
\<close>

type_synonym statement = "string \<times> (string \<times> pyval) list"

type_synonym row = "(string \<times> pyval) list"

record connection =
  default_catalog :: "string option"
  default_schema :: "string option"
  server :: "statement list \<Rightarrow> statement \<Rightarrow> exn + row list"
  executed :: "statement list"

text \<open>\<open>connection.execute(sql.text(query), params)\<close>.\<close>

definition execute ::
  "connection \<Rightarrow> string \<Rightarrow> (string \<times> pyval) list \<Rightarrow> (exn + row list) \<times> connection" where
  "execute c q params =
     (server c (executed c) (q, params), c\<lparr>executed := executed c @ [(q, params)]\<rparr>)"

text \<open>
  \<open>record.column\<close>, \<open>res.first()\<close> and \<open>res.scalar()\<close>: the first row, and the
  first column of the first row, each \<open>None\<close> when the result has no row.
\<close>

definition row_attr :: "row \<Rightarrow> string \<Rightarrow> exn + pyval" where
  "row_attr r column = (case map_of r column of None \<Rightarrow> Inl AttributeError | Some v \<Rightarrow> Inr v)"

definition first :: "row list \<Rightarrow> row option" where
  "first res = (case res of [] \<Rightarrow> None | r # rs \<Rightarrow> Some r)"

definition scalar :: "row list \<Rightarrow> pyval" where
  "scalar res = (case res of [] \<Rightarrow> PNone | r # rs \<Rightarrow> (case r of [] \<Rightarrow> PNone | cv # cvs \<Rightarrow> snd cv))"

text \<open>
  \<open>_raw_connection\<close> reaches the DBAPI connection, through \<open>raw_connection()\<close> for an
  engine and through \<open>.connection\<close> otherwise; \<open>_get_default_catalog_name\<close> and
  \<open>_get_default_schema_name\<close> read its \<open>catalog\<close> and \<open>schema\<close>. (A name cannot
  start with an underscore here: the private methods have the prefix \<open>p_\<close>.)
\<close>

definition p_get_default_catalog_name :: "connection \<Rightarrow> string option" where
  "p_get_default_catalog_name c = default_catalog c"

definition p_get_default_schema_name :: "connection \<Rightarrow> string option" where
  "p_get_default_schema_name c = default_schema c"

section \<open>The fixed catalog queries\<close>

text \<open>
  Each query is the text of the source after \<open>dedent(...).strip()\<close>, line by line;
  \<open>dq\<close> and \<open>sq\<close> put a word in double and in single quotes.
\<close>

definition dq :: "string \<Rightarrow> string" where
  "dq s = CHR 0x22 # s @ [CHR 0x22]"

definition sq :: "string \<Rightarrow> string" where
  "sq s = CHR 0x27 # s @ [CHR 0x27]"

fun join_lines :: "string list \<Rightarrow> string" where
  "join_lines [] = []"
| "join_lines [l] = l"
| "join_lines (l # ls) = l @ CHR 0x0A # join_lines ls"

definition columns_query :: string where
  "columns_query = join_lines
     [''SELECT'',
      ''    '' @ dq ''column_name'' @ '','',
      ''    '' @ dq ''data_type'' @ '','',
      ''    '' @ dq ''column_default'' @ '','',
      ''    UPPER('' @ dq ''is_nullable'' @ '') AS '' @ dq ''is_nullable'',
      ''FROM '' @ dq ''information_schema'' @ ''.'' @ dq ''columns'',
      ''WHERE '' @ dq ''table_schema'' @ '' = :schema'',
      ''  AND '' @ dq ''table_name'' @ '' = :table'',
      ''ORDER BY '' @ dq ''ordinal_position'' @ '' ASC'']"

definition table_names_query :: string where
  "table_names_query = join_lines
     [''SELECT '' @ dq ''table_name'',
      ''FROM '' @ dq ''information_schema'' @ ''.'' @ dq ''tables'',
      ''WHERE '' @ dq ''table_schema'' @ '' = :schema'',
      ''  AND '' @ dq ''table_type'' @ '' = '' @ sq ''BASE TABLE'']"

definition view_names_query :: string where
  "view_names_query = join_lines
     [''SELECT '' @ dq ''table_name'',
      ''FROM '' @ dq ''information_schema'' @ ''.'' @ dq ''tables'',
      ''WHERE '' @ dq ''table_schema'' @ '' = :schema'',
      ''  AND '' @ dq ''table_type'' @ '' = '' @ sq ''VIEW'']"

definition has_table_query :: string where
  "has_table_query = join_lines
     [''SELECT '' @ dq ''table_name'',
      ''FROM '' @ dq ''information_schema'' @ ''.'' @ dq ''tables'',
      ''WHERE '' @ dq ''table_schema'' @ '' = :schema'',
      ''  AND '' @ dq ''table_name'' @ '' = :table'']"

definition version_query :: string where
  "version_query = ''SELECT version()''"

section \<open>Reflection\<close>

text \<open>
  A method that takes the connection returns its result (or the exception) together
  with the connection as the call leaves it.
\<close>

definition has_table ::
  "connection \<Rightarrow> string \<Rightarrow> string option \<Rightarrow> (exn + bool) \<times> connection" where
  "has_table c table_name schema =
     (case py_or schema (p_get_default_schema_name c) of
        None \<Rightarrow> (Inr False, c)
      | Some s \<Rightarrow>
          (case execute c has_table_query [(''schema'', PStr s), (''table'', PStr table_name)] of
             (Inl e, c') \<Rightarrow> (Inl e, c')
           | (Inr res, c') \<Rightarrow> (Inr (first res \<noteq> None), c')))"

text \<open>
  The dictionary of one column. \<open>datatype.parse_sqltype\<close> is a function of this
  repository whose source is not at hand: it is a parameter, with the type \<open>'ty\<close> of
  the type objects it returns.
\<close>

record 'ty column =
  col_name :: pyval
  col_type :: 'ty
  col_nullable :: bool
  col_default :: pyval

definition column_of_record :: "(pyval \<Rightarrow> exn + 'ty) \<Rightarrow> row \<Rightarrow> exn + 'ty column" where
  "column_of_record parse_sqltype r =
     and_then (row_attr r ''column_name'') (\<lambda>n.
     and_then (row_attr r ''data_type'') (\<lambda>d.
     and_then (parse_sqltype d) (\<lambda>t.
     and_then (row_attr r ''is_nullable'') (\<lambda>i.
     and_then (row_attr r ''column_default'') (\<lambda>dflt.
       Inr \<lparr> col_name = n, col_type = t, col_nullable = (i = PStr ''YES''),
             col_default = dflt \<rparr>)))))"

definition p_get_columns ::
  "(pyval \<Rightarrow> exn + 'ty) \<Rightarrow> connection \<Rightarrow> string \<Rightarrow> string option \<Rightarrow>
   (exn + 'ty column list) \<times> connection" where
  "p_get_columns parse_sqltype c table_name schema =
     (let schema' = py_or schema (p_get_default_schema_name c) in
      case execute c columns_query [(''schema'', opt_str schema'), (''table'', PStr table_name)] of
        (Inl e, c') \<Rightarrow> (Inl e, c')
      | (Inr res, c') \<Rightarrow> (traverse (column_of_record parse_sqltype) res, c'))"

definition get_columns ::
  "(pyval \<Rightarrow> exn + 'ty) \<Rightarrow> connection \<Rightarrow> string \<Rightarrow> string option \<Rightarrow>
   (exn + 'ty column list) \<times> connection" where
  "get_columns parse_sqltype c table_name schema =
     (case has_table c table_name schema of
        (Inl e, c') \<Rightarrow> (Inl e, c')
      | (Inr False, c') \<Rightarrow>
          (Inl (NoSuchTableError
                 (''schema='' @ format_opt schema @ '', table='' @ table_name)), c')
      | (Inr True, c') \<Rightarrow> p_get_columns parse_sqltype c' table_name schema)"

definition get_table_names ::
  "connection \<Rightarrow> string option \<Rightarrow> (exn + pyval list) \<times> connection" where
  "get_table_names c schema =
     (case py_or schema (p_get_default_schema_name c) of
        None \<Rightarrow> (Inl (NoSuchTableError ''schema is required''), c)
      | Some s \<Rightarrow>
          (case execute c table_names_query [(''schema'', PStr s)] of
             (Inl e, c') \<Rightarrow> (Inl e, c')
           | (Inr res, c') \<Rightarrow> (traverse (\<lambda>row. row_attr row ''table_name'') res, c')))"

definition get_view_names ::
  "connection \<Rightarrow> string option \<Rightarrow> (exn + pyval list) \<times> connection" where
  "get_view_names c schema =
     (case py_or schema (p_get_default_schema_name c) of
        None \<Rightarrow> (Inl (NoSuchTableError ''schema is required''), c)
      | Some s \<Rightarrow>
          (case execute c view_names_query [(''schema'', PStr s)] of
             (Inl e, c') \<Rightarrow> (Inl e, c')
           | (Inr res, c') \<Rightarrow> (traverse (\<lambda>row. row_attr row ''table_name'') res, c')))"

subsection \<open>Features the engine does not have\<close>

definition get_pk_constraint ::
  "connection \<Rightarrow> string \<Rightarrow> string option \<Rightarrow> (exn + (string \<times> pyval) list) \<times> connection" where
  "get_pk_constraint c table_name schema =
     (Inr [(''name'', PNone), (''constrained_columns'', PList [])], c)"

text \<open>\<open>pk.get("constrained_columns")\<close>: the value under the key, \<open>None\<close> without it.\<close>

definition get_primary_keys ::
  "connection \<Rightarrow> string \<Rightarrow> string option \<Rightarrow> (exn + pyval) \<times> connection" where
  "get_primary_keys c table_name schema =
     (case get_pk_constraint c table_name schema of
        (Inl e, c') \<Rightarrow> (Inl e, c')
      | (Inr pk, c') \<Rightarrow>
          (Inr (case map_of pk ''constrained_columns'' of None \<Rightarrow> PNone | Some v \<Rightarrow> v), c'))"

definition get_foreign_keys ::
  "connection \<Rightarrow> string \<Rightarrow> string option \<Rightarrow> (exn + (string \<times> pyval) list list) \<times> connection" where
  "get_foreign_keys c table_name schema = (Inr [], c)"

definition get_temp_table_names ::
  "connection \<Rightarrow> string option \<Rightarrow> (exn + string list) \<times> connection" where
  "get_temp_table_names c schema = (Inr [], c)"

definition get_temp_view_names ::
  "connection \<Rightarrow> string option \<Rightarrow> (exn + string list) \<times> connection" where
  "get_temp_view_names c schema = (Inr [], c)"

definition get_sequence_names ::
  "connection \<Rightarrow> string option \<Rightarrow> (exn + string list) \<times> connection" where
  "get_sequence_names c schema = (Inr [], c)"

definition get_unique_constraints ::
  "connection \<Rightarrow> string \<Rightarrow> string option \<Rightarrow> (exn + (string \<times> pyval) list list) \<times> connection" where
  "get_unique_constraints c table_name schema = (Inr [], c)"

definition get_check_constraints ::
  "connection \<Rightarrow> string \<Rightarrow> string option \<Rightarrow> (exn + (string \<times> pyval) list list) \<times> connection" where
  "get_check_constraints c table_name schema = (Inr [], c)"

definition has_sequence ::
  "connection \<Rightarrow> string \<Rightarrow> string option \<Rightarrow> (exn + bool) \<times> connection" where
  "has_sequence c sequence_name schema = (Inr False, c)"

section \<open>Lazy server version\<close>

text \<open>
  \<open>_get_server_version_info\<close> is a class method that assigns to the class attribute
  \<open>server_version_info\<close> a property whose getter, the local function
  \<open>get_server_version_info\<close>, holds a reference to the connection it was given, and
  whose setter ignores the value assigned. The world is the store of the connection
  objects, by reference, and the class attribute: a plain value (\<open>None\<close> in the base
  class) or the property with the connection of its getter.

  The handler of \<open>ProgrammingError\<close> formats \<open>e.orig.message\<close> into the line it
  logs before it returns \<open>None\<close>: when the original error has no message, the
  attribute access raises \<open>AttributeError\<close> out of the handler. The log itself is not
  part of the model.
\<close>

datatype class_attr = Plain pyval | Property nat

record world =
  conns :: "nat \<Rightarrow> connection"
  server_version_info :: class_attr

definition p_get_server_version_info :: "world \<Rightarrow> nat \<Rightarrow> pyval \<times> world" where
  "p_get_server_version_info w connection =
     (PNone, w\<lparr>server_version_info := Property connection\<rparr>)"

definition get_server_version_info :: "world \<Rightarrow> nat \<Rightarrow> (exn + pyval) \<times> world" where
  "get_server_version_info w connection =
     (case execute (conns w connection) version_query [] of
        (Inr res, c') \<Rightarrow>
          (Inr (PTuple [scalar res]), w\<lparr>conns := (conns w)(connection := c')\<rparr>)
      | (Inl (ProgrammingError (Some message)), c') \<Rightarrow>
          (Inr PNone, w\<lparr>conns := (conns w)(connection := c')\<rparr>)
      | (Inl (ProgrammingError None), c') \<Rightarrow>
          (Inl AttributeError, w\<lparr>conns := (conns w)(connection := c')\<rparr>)
      | (Inl e, c') \<Rightarrow>
          (Inl e, w\<lparr>conns := (conns w)(connection := c')\<rparr>))"

text \<open>
  Reading and assigning \<open>dialect.server_version_info\<close>.
\<close>

definition read_server_version_info :: "world \<Rightarrow> (exn + pyval) \<times> world" where
  "read_server_version_info w =
     (case server_version_info w of
        Plain v \<Rightarrow> (Inr v, w)
      | Property connection \<Rightarrow> get_server_version_info w connection)"

definition write_server_version_info :: "world \<Rightarrow> pyval \<Rightarrow> world" where
  "write_server_version_info w v =
     (case server_version_info w of
        Plain old \<Rightarrow> w\<lparr>server_version_info := Plain v\<rparr>
      | Property connection \<Rightarrow> w)"

text \<open>
  A run of the dialect is a list of calls of the methods above, each on a connection of
  the store; \<open>perform\<close> gives the world after a call. \<open>version_queries\<close> are the
  statements with the text of the version query among those a connection has executed.
\<close>

datatype call =
    Get_server_version_info nat
  | Read_server_version_info
  | Write_server_version_info pyval
  | Has_table nat string "string option"
  | Get_columns nat string "string option"
  | Get_table_names nat "string option"
  | Get_view_names nat "string option"
  | Get_pk_constraint nat string "string option"
  | Get_primary_keys nat string "string option"
  | Get_foreign_keys nat string "string option"
  | Get_temp_table_names nat "string option"
  | Get_temp_view_names nat "string option"
  | Get_sequence_names nat "string option"
  | Get_unique_constraints nat string "string option"
  | Get_check_constraints nat string "string option"
  | Has_sequence nat string "string option"

definition on_connection :: "nat \<Rightarrow> (connection \<Rightarrow> 'a \<times> connection) \<Rightarrow> world \<Rightarrow> world" where
  "on_connection r f w = w\<lparr>conns := (conns w)(r := snd (f (conns w r)))\<rparr>"

fun perform :: "(pyval \<Rightarrow> exn + 'ty) \<Rightarrow> world \<Rightarrow> call \<Rightarrow> world" where
  "perform parse_sqltype w (Get_server_version_info r) = snd (p_get_server_version_info w r)"
| "perform parse_sqltype w Read_server_version_info = snd (read_server_version_info w)"
| "perform parse_sqltype w (Write_server_version_info v) = write_server_version_info w v"
| "perform parse_sqltype w (Has_table r t s) = on_connection r (\<lambda>c. has_table c t s) w"
| "perform parse_sqltype w (Get_columns r t s) =
     on_connection r (\<lambda>c. get_columns parse_sqltype c t s) w"
| "perform parse_sqltype w (Get_table_names r s) = on_connection r (\<lambda>c. get_table_names c s) w"
| "perform parse_sqltype w (Get_view_names r s) = on_connection r (\<lambda>c. get_view_names c s) w"
| "perform parse_sqltype w (Get_pk_constraint r t s) =
     on_connection r (\<lambda>c. get_pk_constraint c t s) w"
| "perform parse_sqltype w (Get_primary_keys r t s) =
     on_connection r (\<lambda>c. get_primary_keys c t s) w"
| "perform parse_sqltype w (Get_foreign_keys r t s) =
     on_connection r (\<lambda>c. get_foreign_keys c t s) w"
| "perform parse_sqltype w (Get_temp_table_names r s) =
     on_connection r (\<lambda>c. get_temp_table_names c s) w"
| "perform parse_sqltype w (Get_temp_view_names r s) =
     on_connection r (\<lambda>c. get_temp_view_names c s) w"
| "perform parse_sqltype w (Get_sequence_names r s) =
     on_connection r (\<lambda>c. get_sequence_names c s) w"
| "perform parse_sqltype w (Get_unique_constraints r t s) =
     on_connection r (\<lambda>c. get_unique_constraints c t s) w"
| "perform parse_sqltype w (Get_check_constraints r t s) =
     on_connection r (\<lambda>c. get_check_constraints c t s) w"
| "perform parse_sqltype w (Has_sequence r n s) = on_connection r (\<lambda>c. has_sequence c n s) w"

definition version_queries :: "connection \<Rightarrow> statement list" where
  "version_queries c = filter (\<lambda>st. fst st = version_query) (executed c)"

section \<open>Sample connections\<close>

text \<open>
  A connection whose server knows a schema \<open>tiny\<close> with the tables \<open>orders\<close> and
  \<open>lineitem\<close> and one view, a connection whose server rejects every statement with an
  error that has a message, and one whose server rejects every statement with an error
  that has none; a stand-in for \<open>parse_sqltype\<close> that takes the name of the type for
  the type.
\<close>

definition sample_columns :: "row list" where
  "sample_columns =
     [[(''column_name'', PStr ''orderkey''), (''data_type'', PStr ''bigint''),
       (''column_default'', PNone), (''is_nullable'', PStr ''NO'')],
      [(''column_name'', PStr ''comment''), (''data_type'', PStr ''varchar''),
       (''column_default'', PNone), (''is_nullable'', PStr ''YES'')]]"

definition sample_server :: "statement list \<Rightarrow> statement \<Rightarrow> exn + row list" where
  "sample_server history st =
     (if fst st = table_names_query then
        Inr [[(''table_name'', PStr ''orders'')], [(''table_name'', PStr ''lineitem'')]]
      else if fst st = view_names_query then
        Inr [[(''table_name'', PStr ''recent_orders'')]]
      else if fst st = has_table_query then
        (if snd st = [(''schema'', PStr ''tiny''), (''table'', PStr ''orders'')]
         then Inr [[(''table_name'', PStr ''orders'')]] else Inr [])
      else if fst st = columns_query then Inr sample_columns
      else if fst st = version_query then Inr [[(''_col0'', PStr ''433'')]]
      else Inl (ProgrammingError (Some ''syntax error'')))"

definition sample_connection :: connection where
  "sample_connection =
     \<lparr> default_catalog = Some ''tpch'', default_schema = None,
       server = sample_server, executed = [] \<rparr>"

definition sample_parse_sqltype :: "pyval \<Rightarrow> exn + string" where
  "sample_parse_sqltype v = (case v of PStr s \<Rightarrow> Inr s | _ \<Rightarrow> Inl AttributeError)"

definition failing_connection :: connection where
  "failing_connection =
     \<lparr> default_catalog = None, default_schema = None,
       server = (\<lambda>history st. Inl (ProgrammingError (Some ''Access Denied''))),
       executed = [] \<rparr>"

definition messageless_connection :: connection where
  "messageless_connection =
     \<lparr> default_catalog = None, default_schema = None,
       server = (\<lambda>history st. Inl (ProgrammingError None)), executed = [] \<rparr>"

definition sample_world :: world where
  "sample_world =
     \<lparr> conns = (\<lambda>r. if r = 0 then sample_connection
                    else if r = 1 then failing_connection else messageless_connection),
       server_version_info = Plain PNone \<rparr>"

section \<open>Sequencing and frame lemmas\<close>

lemma and_then_Inr: "and_then m f = Inr y \<longleftrightarrow> (\<exists>x. m = Inr x \<and> f x = Inr y)"
  by (cases m) (simp_all add: and_then_def)

lemma and_then_simps [simp]:
  "and_then (Inl e) f = Inl e" "and_then (Inr x) f = f x"
  by (simp_all add: and_then_def)

lemma run_steps_append:
  "run_steps (fs @ gs) kw = and_then (run_steps fs kw) (run_steps gs)"
  by (induction fs arbitrary: kw) (auto simp: and_then_def split: sum.splits)

lemma run_steps_keeps:
  "list_all (keeps k) fs \<Longrightarrow> run_steps fs kw = Inr kw' \<Longrightarrow> map_of kw' k = map_of kw k"
proof (induction fs arbitrary: kw)
  case Nil
  then show ?case by simp
next
  case (Cons f fs)
  from Cons.prems(2) obtain kw1 where f: "f kw = Inr kw1" and r: "run_steps fs kw1 = Inr kw'"
    by (auto simp: and_then_Inr)
  from Cons.prems(1) f have "map_of kw1 k = map_of kw k" by (simp add: keeps_def)
  moreover from Cons.prems(1) r have "map_of kw' k = map_of kw1 k" by (simp add: Cons.IH)
  ultimately show ?case by simp
qed

lemma keeps_port: "k \<noteq> ''port'' \<Longrightarrow> keeps k (kw_port u)"
  by (auto simp: keeps_def kw_port_def update_conv' split: option.splits)

lemma keeps_database: "k \<noteq> ''catalog'' \<Longrightarrow> k \<noteq> ''schema'' \<Longrightarrow> keeps k (kw_database L u)"
  by (auto simp: keeps_def kw_database_def Let_def update_conv' split: if_splits)

lemma keeps_user: "k \<noteq> ''user'' \<Longrightarrow> keeps k (kw_user L u)"
  by (auto simp: keeps_def kw_user_def update_conv' split: option.splits)

lemma keeps_password: "k \<noteq> ''auth'' \<Longrightarrow> keeps k (kw_password L u)"
  by (auto simp: keeps_def kw_password_def update_conv' split: option.splits)

lemma keeps_access_token: "k \<noteq> ''auth'' \<Longrightarrow> keeps k (kw_access_token L u)"
  by (auto simp: keeps_def kw_access_token_def update_conv' and_then_Inr split: option.splits)

lemma keeps_cert: "k \<noteq> ''auth'' \<Longrightarrow> keeps k (kw_cert L u)"
  by (auto simp: keeps_def kw_cert_def update_conv' and_then_Inr split: option.splits)

lemma keeps_external: "k \<noteq> ''auth'' \<Longrightarrow> keeps k (kw_external u)"
  by (auto simp: keeps_def kw_external_def update_conv' split: option.splits)

lemma keeps_source: "k \<noteq> ''source'' \<Longrightarrow> keeps k (kw_source L u)"
  by (auto simp: keeps_def kw_source_def update_conv' and_then_Inr split: option.splits)

lemma keeps_json: "k \<noteq> key \<Longrightarrow> keeps k (kw_json L u key)"
  by (auto simp: keeps_def kw_json_def update_conv' and_then_Inr split: option.splits)

lemma keeps_extra_credential: "k \<noteq> ''extra_credential'' \<Longrightarrow> keeps k (kw_extra_credential L u)"
  by (auto simp: keeps_def kw_extra_credential_def update_conv' and_then_Inr split: option.splits)

lemma keeps_roles: "k \<noteq> ''roles'' \<Longrightarrow> keeps k (kw_roles L u)"
  by (auto simp: keeps_def kw_roles_def update_conv' and_then_Inr split: option.splits)

lemma keeps_auth_steps: "k \<noteq> ''auth'' \<Longrightarrow> list_all (keeps k) (auth_steps L u)"
  by (simp add: auth_steps_def keeps_password keeps_access_token keeps_cert keeps_external)

lemma keeps_option_steps:
  "k \<in> {''host'', ''port'', ''catalog'', ''schema'', ''user'', ''auth''} \<Longrightarrow>
   list_all (keeps k) (option_steps L u)"
  by (auto simp: option_steps_def keeps_source keeps_json keeps_extra_credential keeps_roles)

section \<open>What create_connect_args returns\<close>

lemma create_connect_args_stages:
  "create_connect_args L self u = Inr (args, kw) \<longleftrightarrow>
     args = [] \<and>
     (\<exists>k1 k2 k3 k4.
        kw_port u [(''host'', opt_str (host u))] = Inr k1 \<and>
        kw_database L u k1 = Inr k2 \<and>
        kw_user L u k2 = Inr k3 \<and>
        run_steps (auth_steps L u) k3 = Inr k4 \<and>
        run_steps (option_steps L u) k4 = Inr kw)"
  by (auto simp: create_connect_args_def run_steps_append and_then_Inr)

lemma py_split_nonempty: "py_split sep s \<noteq> []"
  by (induction s) auto

text \<open>What each of the first three steps leaves under the keys it owns.\<close>

lemma kw_port_result:
  "kw_port u kw = Inr kw' \<Longrightarrow>
   map_of kw' ''port'' = (case truthy_int (port u) of Some p \<Rightarrow> Some (PInt p) | None \<Rightarrow> map_of kw ''port'')"
  by (auto simp: kw_port_def update_conv' split: option.splits)

lemma kw_user_result:
  "kw_user L u kw = Inr kw' \<Longrightarrow>
   map_of kw' ''user'' =
     (case truthy_str (username u) of Some n \<Rightarrow> Some (PStr (unquote_plus L n)) | None \<Rightarrow> map_of kw ''user'')"
  by (auto simp: kw_user_def update_conv' split: option.splits)

lemma kw_database_result:
  assumes "kw_database L u kw = Inr kw'"
  defines "db_parts \<equiv> py_split CHR ''/'' (py_or_str (database u) ''system'')"
  shows "length db_parts = 1 \<or> length db_parts = 2"
    and "map_of kw' ''catalog'' = Some (PStr (unquote_plus L (db_parts ! 0)))"
    and "map_of kw' ''schema'' =
           (if length db_parts = 2 then Some (PStr (unquote_plus L (db_parts ! 1)))
            else map_of kw ''schema'')"
  using assms by (auto simp: kw_database_def Let_def update_conv' split: if_splits)

lemma kw_database_raises:
  "2 < length (py_split CHR ''/'' (py_or_str (database u) ''system'')) \<Longrightarrow>
   kw_database L u kw = Inl (ValueError (''Unexpected database format '' @ format_opt (database u)))"
  by (simp add: kw_database_def Let_def)

lemma kw_source_result:
  "kw_source L u kw = Inr kw' \<Longrightarrow>
   map_of kw' ''source'' =
     (case query u ''source'' of
        None \<Rightarrow> Some (PStr ''trino-sqlalchemy'')
      | Some (QStr s) \<Rightarrow> Some (PStr (unquote_plus L s))
      | Some (QTuple ss) \<Rightarrow> None)"
  by (auto simp: kw_source_def update_conv' and_then_Inr split: option.splits qval.splits)

lemma option_steps_source:
  assumes "run_steps (option_steps L u) kw = Inr kw'"
  shows "map_of kw' ''source'' =
     (case query u ''source'' of
        None \<Rightarrow> Some (PStr ''trino-sqlalchemy'')
      | Some (QStr s) \<Rightarrow> Some (PStr (unquote_plus L s))
      | Some (QTuple ss) \<Rightarrow> None)"
    and "query u ''source'' \<noteq> Some (QTuple ss)"
proof -
  let ?rest = "tl (option_steps L u)"
  have split: "option_steps L u = kw_source L u # ?rest"
    by (simp add: option_steps_def)
  from assms obtain k1 where s: "kw_source L u kw = Inr k1" and r: "run_steps ?rest k1 = Inr kw'"
    by (subst (asm) split) (auto simp: and_then_Inr)
  have "list_all (keeps ''source'') ?rest"
    by (simp add: option_steps_def keeps_json keeps_extra_credential keeps_roles)
  then have "map_of kw' ''source'' = map_of k1 ''source''"
    using r by (rule run_steps_keeps)
  with s show "map_of kw' ''source'' =
     (case query u ''source'' of
        None \<Rightarrow> Some (PStr ''trino-sqlalchemy'')
      | Some (QStr s) \<Rightarrow> Some (PStr (unquote_plus L s))
      | Some (QTuple ss) \<Rightarrow> None)"
    by (simp add: kw_source_result)
  from s show "query u ''source'' \<noteq> Some (QTuple ss)"
    by (auto simp: kw_source_def)
qed

lemma auth_steps_result:
  assumes "run_steps (auth_steps L u) kw = Inr kw'" and "map_of kw ''auth'' = None"
  shows "map_of kw' ''auth'' = auth_choice L u"
proof -
  from assms(1) obtain k1 k2 k3 where
    1: "kw_password L u kw = Inr k1" and 2: "kw_access_token L u k1 = Inr k2" and
    3: "kw_cert L u k2 = Inr k3" and 4: "kw_external u k3 = Inr kw'"
    by (auto simp: auth_steps_def and_then_Inr)
  from 1 assms(2) have a1: "map_of k1 ''auth'' =
      (case (truthy_str (username u), truthy_str (password u)) of
         (Some n, Some p) \<Rightarrow> Some (PAuth (BasicAuthentication (unquote_plus L n) (unquote_plus L p)))
       | _ \<Rightarrow> None)"
    by (auto simp: kw_password_def update_conv' split: option.splits)
  from 2 have a2: "map_of k2 ''auth'' =
      (case query u ''access_token'' of
         Some (QStr t) \<Rightarrow> Some (PAuth (JWTAuthentication (unquote_plus L t)))
       | _ \<Rightarrow> map_of k1 ''auth'')"
    by (auto simp: kw_access_token_def update_conv' and_then_Inr split: option.splits qval.splits)
  from 3 have a3: "map_of k3 ''auth'' =
      (case (query u ''cert'', query u ''key'') of
        (Some (QStr c), Some (QStr k)) \<Rightarrow>
          Some (PAuth (CertificateAuthentication (unquote_plus L c) (unquote_plus L k)))
      | _ \<Rightarrow> map_of k2 ''auth'')"
    by (auto simp: kw_cert_def update_conv' and_then_Inr split: option.splits qval.splits)
  from 4 have a4: "map_of kw' ''auth'' =
      (if query u ''externalAuthentication'' \<noteq> None then Some (PAuth OAuth2Authentication)
       else map_of k3 ''auth'')"
    by (auto simp: kw_external_def update_conv' split: option.splits)
  show ?thesis
    unfolding auth_choice_def a4 a3 a2 a1 by (simp split: option.splits qval.splits)
qed

text \<open>Every entry of the returned \<open>kwargs\<close> that the first seven blocks decide.\<close>

lemma create_connect_args_kwargs:
  assumes "create_connect_args L self u = Inr (args, kw)"
  defines "db_parts \<equiv> py_split CHR ''/'' (py_or_str (database u) ''system'')"
  shows "args = []"
    and "map_of kw ''host'' = Some (opt_str (host u))"
    and "map_of kw ''port'' = map_option PInt (truthy_int (port u))"
    and "length db_parts = 1 \<or> length db_parts = 2"
    and "map_of kw ''catalog'' = Some (PStr (unquote_plus L (db_parts ! 0)))"
    and "map_of kw ''schema'' =
           (if length db_parts = 2 then Some (PStr (unquote_plus L (db_parts ! 1))) else None)"
    and "map_of kw ''user'' = map_option (\<lambda>n. PStr (unquote_plus L n)) (truthy_str (username u))"
    and "map_of kw ''auth'' = auth_choice L u"
    and "map_of kw ''source'' =
           (case query u ''source'' of
              None \<Rightarrow> Some (PStr ''trino-sqlalchemy'')
            | Some (QStr s) \<Rightarrow> Some (PStr (unquote_plus L s))
            | Some (QTuple ss) \<Rightarrow> None)"
    and "query u ''source'' \<noteq> Some (QTuple ss)"
proof -
  from assms(1) obtain k1 k2 k3 k4 where
    args: "args = []" and
    1: "kw_port u [(''host'', opt_str (host u))] = Inr k1" and
    2: "kw_database L u k1 = Inr k2" and
    3: "kw_user L u k2 = Inr k3" and
    4: "run_steps (auth_steps L u) k3 = Inr k4" and
    5: "run_steps (option_steps L u) k4 = Inr kw"
    unfolding create_connect_args_stages by blast
  have keep1: "k \<noteq> ''port'' \<Longrightarrow> map_of k1 k = map_of [(''host'', opt_str (host u))] k" for k
    using keeps_port [of k u] 1 by (simp add: keeps_def)
  have keep2: "k \<noteq> ''catalog'' \<Longrightarrow> k \<noteq> ''schema'' \<Longrightarrow> map_of k2 k = map_of k1 k" for k
    using keeps_database [of k L u] 2 by (simp add: keeps_def)
  have keep3: "k \<noteq> ''user'' \<Longrightarrow> map_of k3 k = map_of k2 k" for k
    using keeps_user [of k L u] 3 by (simp add: keeps_def)
  have keep4: "k \<noteq> ''auth'' \<Longrightarrow> map_of k4 k = map_of k3 k" for k
    using run_steps_keeps [OF keeps_auth_steps 4] by simp
  have keep5: "k \<in> {''host'', ''port'', ''catalog'', ''schema'', ''user'', ''auth''} \<Longrightarrow>
      map_of kw k = map_of k4 k" for k
    using run_steps_keeps [OF keeps_option_steps 5] by simp
  show "args = []" by (rule args)
  show "map_of kw ''host'' = Some (opt_str (host u))"
    by (simp add: keep5 keep4 keep3 keep2 keep1)
  have "map_of k1 ''port'' = map_option PInt (truthy_int (port u))"
    using kw_port_result [OF 1] by (simp split: option.splits)
  then show "map_of kw ''port'' = map_option PInt (truthy_int (port u))"
    by (simp add: keep5 keep4 keep3 keep2)
  show "length db_parts = 1 \<or> length db_parts = 2"
    unfolding db_parts_def by (rule kw_database_result(1) [OF 2])
  show "map_of kw ''catalog'' = Some (PStr (unquote_plus L (db_parts ! 0)))"
    unfolding db_parts_def using kw_database_result(2) [OF 2]
    by (simp add: keep5 keep4 keep3)
  have "map_of k1 ''schema'' = None" by (simp add: keep1)
  then show "map_of kw ''schema'' =
           (if length db_parts = 2 then Some (PStr (unquote_plus L (db_parts ! 1))) else None)"
    unfolding db_parts_def using kw_database_result(3) [OF 2]
    by (simp add: keep5 keep4 keep3)
  have "map_of k2 ''user'' = None" by (simp add: keep2 keep1)
  then have "map_of k3 ''user'' = map_option (\<lambda>n. PStr (unquote_plus L n)) (truthy_str (username u))"
    using kw_user_result [OF 3] by (simp split: option.splits)
  then show "map_of kw ''user'' = map_option (\<lambda>n. PStr (unquote_plus L n)) (truthy_str (username u))"
    by (simp add: keep5 keep4)
  have "map_of k3 ''auth'' = None" by (simp add: keep3 keep2 keep1)
  with 4 have "map_of k4 ''auth'' = auth_choice L u" by (rule auth_steps_result)
  then show "map_of kw ''auth'' = auth_choice L u" by (simp add: keep5)
  show "map_of kw ''source'' =
           (case query u ''source'' of
              None \<Rightarrow> Some (PStr ''trino-sqlalchemy'')
            | Some (QStr s) \<Rightarrow> Some (PStr (unquote_plus L s))
            | Some (QTuple ss) \<Rightarrow> None)"
    by (rule option_steps_source(1) [OF 5])
  show "query u ''source'' \<noteq> Some (QTuple ss)"
    by (rule option_steps_source(2) [OF 5])
qed

section \<open>When create_connect_args raises\<close>

lemma create_connect_args_database_raises:
  assumes "2 < length (py_split CHR ''/'' (py_or_str (database u) ''system''))"
  shows "create_connect_args L self u =
           Inl (ValueError (''Unexpected database format '' @ format_opt (database u)))"
  by (simp add: create_connect_args_def kw_port_def kw_database_raises [OF assms] Let_def
      split: option.splits)

lemma create_connect_args_password_raises:
  assumes "length (py_split CHR ''/'' (py_or_str (database u) ''system'')) \<le> 2"
    and "truthy_str (password u) = Some p" and "truthy_str (username u) = None"
  shows "create_connect_args L self u =
           Inl (ValueError ''Username is required when specify password in connection URL'')"
proof -
  have "length (py_split CHR ''/'' (py_or_str (database u) ''system'')) \<noteq> 0"
    by (simp add: py_split_nonempty)
  with assms(1) have
    "length (py_split CHR ''/'' (py_or_str (database u) ''system'')) = 1 \<or>
     length (py_split CHR ''/'' (py_or_str (database u) ''system'')) = 2"
    by arith
  then show ?thesis using assms(2,3)
    by (auto simp: create_connect_args_def kw_port_def kw_database_def kw_user_def
        auth_steps_def kw_password_def Let_def split: option.splits)
qed

lemmas create_connect_args_eval =
  create_connect_args_def sample_url_def sample_lib_def kw_port_def kw_database_def
  kw_user_def auth_steps_def option_steps_def kw_password_def kw_access_token_def kw_cert_def
  kw_external_def kw_source_def kw_json_def kw_extra_credential_def kw_roles_def
  truthy_str_def truthy_int_def py_or_str_def opt_str_def format_opt_def unquote_plus_def Let_def

lemmas url_samples = url_basic_def url_jwt_def url_cert_def url_oauth2_def

section \<open>The claims about create_connect_args\<close>

text \<open>
  C1. \<open>create_connect_args\<close> splits the database segment of the URL on \<open>/\<close>, taking
  \<open>system\<close> when the segment is absent (\<open>url.database or "system"\<close>: \<open>None\<close> or
  empty). With exactly one part, the returned kwargs map \<open>catalog\<close> to
  \<open>unquote_plus\<close> of that part and have no \<open>schema\<close> key; with exactly two parts,
  they map \<open>catalog\<close> to \<open>unquote_plus\<close> of the first part and \<open>schema\<close> to
  \<open>unquote_plus\<close> of the second.
\<close>

theorem create_connect_args_catalog_schema:
  assumes "create_connect_args L self u = Inr (args, kwargs)"
    and "db_parts = py_split CHR ''/'' (py_or_str (database u) ''system'')"
  shows "(length db_parts = 1 \<longrightarrow>
            map_of kwargs ''catalog'' = Some (PStr (unquote_plus L (db_parts ! 0))) \<and>
            map_of kwargs ''schema'' = None) \<and>
         (length db_parts = 2 \<longrightarrow>
            map_of kwargs ''catalog'' = Some (PStr (unquote_plus L (db_parts ! 0))) \<and>
            map_of kwargs ''schema'' = Some (PStr (unquote_plus L (db_parts ! 1))))"
  using create_connect_args_kwargs(5,6) [OF assms(1)] assms(2) by simp

theorem create_connect_args_catalog_schema_witness:
  "create_connect_args sample_lib sample_dialect (sample_url\<lparr>database := Some ''tpch''\<rparr>) =
     Inr ([], [(''host'', PStr ''localhost''), (''port'', PInt 8080), (''catalog'', PStr ''tpch''),
               (''source'', PStr ''trino-sqlalchemy'')]) \<and>
   py_split CHR ''/'' ''tpch'' = [''tpch''] \<and>
   create_connect_args sample_lib sample_dialect (sample_url\<lparr>database := Some ''tpch/tiny''\<rparr>) =
     Inr ([], [(''host'', PStr ''localhost''), (''port'', PInt 8080), (''catalog'', PStr ''tpch''),
               (''schema'', PStr ''tiny''), (''source'', PStr ''trino-sqlalchemy'')]) \<and>
   py_split CHR ''/'' ''tpch/tiny'' = [''tpch'', ''tiny'']"
proof -
  let ?k1 = "[(''host'', PStr ''localhost''), (''port'', PInt 8080), (''catalog'', PStr ''tpch''),
               (''source'', PStr ''trino-sqlalchemy'')]"
  let ?k2 = "[(''host'', PStr ''localhost''), (''port'', PInt 8080), (''catalog'', PStr ''tpch''),
               (''schema'', PStr ''tiny''), (''source'', PStr ''trino-sqlalchemy'')]"
  have h1: "create_connect_args sample_lib sample_dialect (sample_url\<lparr>database := Some ''tpch''\<rparr>) =
     Inr ([], ?k1)"
    by (simp add: create_connect_args_eval)
  have h2: "create_connect_args sample_lib sample_dialect (sample_url\<lparr>database := Some ''tpch/tiny''\<rparr>) =
     Inr ([], ?k2)"
    by (simp add: create_connect_args_eval)
  show ?thesis
    using h1 h2 create_connect_args_catalog_schema [OF h1 refl]
      create_connect_args_catalog_schema [OF h2 refl]
    by simp
qed

text \<open>
  C2, as stated, fails: a URL that carries a password and no username but whose database
  segment has three parts is rejected at the database check, with the message of that
  check and not with the message about the username.
\<close>

theorem create_connect_args_value_error_counterexample:
  "password (sample_url\<lparr>database := Some ''a/b/c'', password := Some ''secret''\<rparr>) = Some ''secret'' \<and>
   username (sample_url\<lparr>database := Some ''a/b/c'', password := Some ''secret''\<rparr>) = None \<and>
   create_connect_args sample_lib sample_dialect
       (sample_url\<lparr>database := Some ''a/b/c'', password := Some ''secret''\<rparr>) =
     Inl (ValueError ''Unexpected database format a/b/c'') \<and>
   create_connect_args sample_lib sample_dialect
       (sample_url\<lparr>database := Some ''a/b/c'', password := Some ''secret''\<rparr>) \<noteq>
     Inl (ValueError ''Username is required when specify password in connection URL'')"
  by (simp add: create_connect_args_eval)

text \<open>
  C2, amended. \<open>create_connect_args\<close> raises \<open>ValueError\<close>, returning no connection
  parameters, in two cases: when the database segment splits on \<open>/\<close> into more than two
  parts (message \<open>Unexpected database format\<close> followed by the segment), and, the database
  segment having at most two parts, when the URL carries a password (present and not
  empty) but no username (absent or empty), then with the message
  \<open>Username is required when specify password in connection URL\<close>.
\<close>

theorem create_connect_args_value_error:
  "(2 < length (py_split CHR ''/'' (py_or_str (database u) ''system'')) \<longrightarrow>
      create_connect_args L self u =
        Inl (ValueError (''Unexpected database format '' @ format_opt (database u)))) \<and>
   (length (py_split CHR ''/'' (py_or_str (database u) ''system'')) \<le> 2 \<and>
    truthy_str (password u) \<noteq> None \<and> truthy_str (username u) = None \<longrightarrow>
      create_connect_args L self u =
        Inl (ValueError ''Username is required when specify password in connection URL''))"
  using create_connect_args_database_raises [of u L self]
    create_connect_args_password_raises [of u _ L self]
  by auto

theorem create_connect_args_value_error_witness:
  "2 < length (py_split CHR ''/'' ''a/b/c'') \<and>
   create_connect_args sample_lib sample_dialect (sample_url\<lparr>database := Some ''a/b/c''\<rparr>) =
     Inl (ValueError ''Unexpected database format a/b/c'') \<and>
   length (py_split CHR ''/'' ''tpch/tiny'') \<le> 2 \<and>
   create_connect_args sample_lib sample_dialect
       (sample_url\<lparr>database := Some ''tpch/tiny'', password := Some ''secret''\<rparr>) =
     Inl (ValueError ''Username is required when specify password in connection URL'')"
  using
    create_connect_args_value_error
      [of "sample_url\<lparr>database := Some ''a/b/c''\<rparr>" sample_lib sample_dialect]
    create_connect_args_value_error
      [of "sample_url\<lparr>database := Some ''tpch/tiny'', password := Some ''secret''\<rparr>"
        sample_lib sample_dialect]
  by (simp add: sample_url_def truthy_str_def py_or_str_def format_opt_def)

text \<open>
  C4, as stated, fails: a URL whose port is \<open>0\<close> carries a port, and the returned
  kwargs have no \<open>port\<close> key, since \<open>if url.port:\<close> tests truthiness.
\<close>

theorem create_connect_args_port_counterexample:
  "port (sample_url\<lparr>port := Some 0\<rparr>) = Some 0 \<and>
   create_connect_args sample_lib sample_dialect (sample_url\<lparr>port := Some 0\<rparr>) =
     Inr ([], [(''host'', PStr ''localhost''), (''catalog'', PStr ''system''),
               (''source'', PStr ''trino-sqlalchemy'')]) \<and>
   map_of [(''host'', PStr ''localhost''), (''catalog'', PStr ''system''),
           (''source'', PStr ''trino-sqlalchemy'')] ''port'' = None"
  by (simp add: create_connect_args_eval)

text \<open>
  C4, amended. The returned kwargs map \<open>host\<close> to the host of the URL; they contain
  \<open>port\<close> exactly when the URL carries a port other than \<open>0\<close>, mapped to that port;
  they contain \<open>user\<close> exactly when the URL carries a username that is not empty, mapped
  to \<open>unquote_plus\<close> of it; and when the URL carries both a username and a password
  (neither empty) and none of \<open>access_token\<close>, \<open>cert\<close> with \<open>key\<close>,
  \<open>externalAuthentication\<close> is among the query parameters, \<open>auth\<close> is
  \<open>BasicAuthentication\<close> of the decoded username and password.
\<close>

theorem create_connect_args_host_port_user_auth:
  assumes "create_connect_args L self u = Inr (args, kwargs)"
  shows "map_of kwargs ''host'' = Some (opt_str (host u)) \<and>
    map_of kwargs ''port'' =
      (case port u of None \<Rightarrow> None | Some p \<Rightarrow> if p = 0 then None else Some (PInt p)) \<and>
    map_of kwargs ''user'' =
      (case username u of None \<Rightarrow> None
       | Some n \<Rightarrow> if n = [] then None else Some (PStr (unquote_plus L n))) \<and>
    (username u = Some n \<and> n \<noteq> [] \<and> password u = Some p \<and> p \<noteq> [] \<and>
     query u ''access_token'' = None \<and>
     (query u ''cert'' = None \<or> query u ''key'' = None) \<and>
     query u ''externalAuthentication'' = None \<longrightarrow>
       map_of kwargs ''auth'' =
         Some (PAuth (BasicAuthentication (unquote_plus L n) (unquote_plus L p))))"
  using create_connect_args_kwargs(2,3,7,8) [OF assms]
  by (auto simp: truthy_int_def truthy_str_def auth_choice_def split: option.splits qval.splits)

theorem create_connect_args_host_port_user_auth_witness:
  "create_connect_args sample_lib sample_dialect
       (sample_url\<lparr>username := Some ''alice'', password := Some ''secret''\<rparr>) =
     Inr ([], [(''host'', PStr ''localhost''), (''port'', PInt 8080), (''catalog'', PStr ''system''),
               (''user'', PStr ''alice''),
               (''auth'', PAuth (BasicAuthentication ''alice'' ''secret'')),
               (''source'', PStr ''trino-sqlalchemy'')]) \<and>
   map_of [(''host'', PStr ''localhost''), (''port'', PInt 8080), (''catalog'', PStr ''system''),
           (''user'', PStr ''alice''),
           (''auth'', PAuth (BasicAuthentication ''alice'' ''secret'')),
           (''source'', PStr ''trino-sqlalchemy'')] ''auth'' =
     Some (PAuth (BasicAuthentication (unquote_plus sample_lib ''alice'')
                                      (unquote_plus sample_lib ''secret'')))"
proof -
  have h: "create_connect_args sample_lib sample_dialect
       (sample_url\<lparr>username := Some ''alice'', password := Some ''secret''\<rparr>) =
     Inr ([], [(''host'', PStr ''localhost''), (''port'', PInt 8080), (''catalog'', PStr ''system''),
               (''user'', PStr ''alice''),
               (''auth'', PAuth (BasicAuthentication ''alice'' ''secret'')),
               (''source'', PStr ''trino-sqlalchemy'')])"
    by (simp add: create_connect_args_eval)
  show ?thesis
    using h create_connect_args_host_port_user_auth [OF h, of "''alice''" "''secret''"]
    by (simp add: sample_url_def)
qed

text \<open>
  C9. When several authentication inputs are present, later assignments to \<open>auth\<close>
  override earlier ones: \<open>externalAuthentication\<close> (OAuth2) wins over \<open>cert\<close> with
  \<open>key\<close> (certificate), which wins over \<open>access_token\<close> (JWT), which wins over
  username with password (basic).
\<close>

theorem create_connect_args_auth_precedence:
  assumes "create_connect_args L self u = Inr (args, kwargs)"
  shows
    "(query u ''externalAuthentication'' \<noteq> None \<longrightarrow>
        map_of kwargs ''auth'' = Some (PAuth OAuth2Authentication)) \<and>
     (query u ''externalAuthentication'' = None \<and>
      query u ''cert'' = Some (QStr c) \<and> query u ''key'' = Some (QStr k) \<longrightarrow>
        map_of kwargs ''auth'' =
          Some (PAuth (CertificateAuthentication (unquote_plus L c) (unquote_plus L k)))) \<and>
     (query u ''externalAuthentication'' = None \<and>
      (query u ''cert'' = None \<or> query u ''key'' = None) \<and>
      query u ''access_token'' = Some (QStr t) \<longrightarrow>
        map_of kwargs ''auth'' = Some (PAuth (JWTAuthentication (unquote_plus L t)))) \<and>
     (query u ''externalAuthentication'' = None \<and>
      (query u ''cert'' = None \<or> query u ''key'' = None) \<and>
      query u ''access_token'' = None \<and>
      username u = Some n \<and> n \<noteq> [] \<and> password u = Some p \<and> p \<noteq> [] \<longrightarrow>
        map_of kwargs ''auth'' =
          Some (PAuth (BasicAuthentication (unquote_plus L n) (unquote_plus L p))))"
  using create_connect_args_kwargs(8) [OF assms]
  by (auto simp: truthy_str_def auth_choice_def split: option.splits qval.splits)

theorem create_connect_args_auth_precedence_witness:
  "create_connect_args sample_lib sample_dialect url_oauth2 =
     Inr ([], [(''host'', PStr ''localhost''), (''port'', PInt 8080), (''catalog'', PStr ''system''),
        (''user'', PStr ''alice''), (''auth'', PAuth OAuth2Authentication),
        (''source'', PStr ''trino-sqlalchemy'')]) \<and>
   create_connect_args sample_lib sample_dialect url_cert =
     Inr ([], [(''host'', PStr ''localhost''), (''port'', PInt 8080), (''catalog'', PStr ''system''),
        (''user'', PStr ''alice''), (''auth'', PAuth (CertificateAuthentication ''c.pem'' ''k.pem'')),
        (''source'', PStr ''trino-sqlalchemy'')]) \<and>
   create_connect_args sample_lib sample_dialect url_jwt =
     Inr ([], [(''host'', PStr ''localhost''), (''port'', PInt 8080), (''catalog'', PStr ''system''),
        (''user'', PStr ''alice''), (''auth'', PAuth (JWTAuthentication ''tok'')),
        (''source'', PStr ''trino-sqlalchemy'')]) \<and>
   create_connect_args sample_lib sample_dialect url_basic =
     Inr ([], [(''host'', PStr ''localhost''), (''port'', PInt 8080), (''catalog'', PStr ''system''),
        (''user'', PStr ''alice''), (''auth'', PAuth (BasicAuthentication ''alice'' ''secret'')),
        (''source'', PStr ''trino-sqlalchemy'')])"
proof -
  have h1: "create_connect_args sample_lib sample_dialect url_oauth2 =
     Inr ([], [(''host'', PStr ''localhost''), (''port'', PInt 8080), (''catalog'', PStr ''system''),
        (''user'', PStr ''alice''), (''auth'', PAuth OAuth2Authentication),
        (''source'', PStr ''trino-sqlalchemy'')])"
    by (simp add: url_samples create_connect_args_eval)
  have h2: "create_connect_args sample_lib sample_dialect url_cert =
     Inr ([], [(''host'', PStr ''localhost''), (''port'', PInt 8080), (''catalog'', PStr ''system''),
        (''user'', PStr ''alice''), (''auth'', PAuth (CertificateAuthentication ''c.pem'' ''k.pem'')),
        (''source'', PStr ''trino-sqlalchemy'')])"
    by (simp add: url_samples create_connect_args_eval)
  have h3: "create_connect_args sample_lib sample_dialect url_jwt =
     Inr ([], [(''host'', PStr ''localhost''), (''port'', PInt 8080), (''catalog'', PStr ''system''),
        (''user'', PStr ''alice''), (''auth'', PAuth (JWTAuthentication ''tok'')),
        (''source'', PStr ''trino-sqlalchemy'')])"
    by (simp add: url_samples create_connect_args_eval)
  have h4: "create_connect_args sample_lib sample_dialect url_basic =
     Inr ([], [(''host'', PStr ''localhost''), (''port'', PInt 8080), (''catalog'', PStr ''system''),
        (''user'', PStr ''alice''), (''auth'', PAuth (BasicAuthentication ''alice'' ''secret'')),
        (''source'', PStr ''trino-sqlalchemy'')])"
    by (simp add: url_samples create_connect_args_eval)
  show ?thesis
    using h1 h2 h3 h4
      create_connect_args_auth_precedence [OF h1]
      create_connect_args_auth_precedence [OF h2, of "''c.pem''" "''k.pem''"]
      create_connect_args_auth_precedence [OF h3, of _ _ "''tok''"]
      create_connect_args_auth_precedence [OF h4, of _ _ _ "''alice''" "''secret''"]
    by (simp add: url_samples sample_url_def)
qed

text \<open>
  C10. The returned kwargs always contain the keys \<open>host\<close>, \<open>catalog\<close> and
  \<open>source\<close>; without a database segment the catalog is \<open>system\<close>, without a
  \<open>source\<close> query parameter the source is \<open>trino-sqlalchemy\<close>; the positional
  arguments returned with them are empty.
\<close>

theorem create_connect_args_always_present:
  assumes "create_connect_args L self u = Inr (args, kwargs)"
  shows "args = [] \<and>
    {''host'', ''catalog'', ''source''} \<subseteq> dom (map_of kwargs) \<and>
    (database u = None \<or> database u = Some [] \<longrightarrow>
       map_of kwargs ''catalog'' = Some (PStr ''system'')) \<and>
    (query u ''source'' = None \<longrightarrow>
       map_of kwargs ''source'' = Some (PStr ''trino-sqlalchemy''))"
proof -
  note kw = create_connect_args_kwargs [OF assms]
  have "map_of kwargs ''source'' \<noteq> None"
    using kw(9) kw(10) by (auto split: option.splits qval.splits)
  moreover have "database u = None \<or> database u = Some [] \<Longrightarrow>
       map_of kwargs ''catalog'' = Some (PStr ''system'')"
    using kw(5) by (auto simp: py_or_str_def truthy_str_def unquote_plus_def)
  ultimately show ?thesis
    using kw(1,2,5,9) by auto
qed

theorem create_connect_args_always_present_witness:
  "create_connect_args sample_lib sample_dialect sample_url =
     Inr ([], [(''host'', PStr ''localhost''), (''port'', PInt 8080), (''catalog'', PStr ''system''),
               (''source'', PStr ''trino-sqlalchemy'')]) \<and>
   database sample_url = None \<and> query sample_url ''source'' = None"
proof -
  have h: "create_connect_args sample_lib sample_dialect sample_url =
     Inr ([], [(''host'', PStr ''localhost''), (''port'', PInt 8080), (''catalog'', PStr ''system''),
               (''source'', PStr ''trino-sqlalchemy'')])"
    by (simp add: create_connect_args_eval)
  show ?thesis
    using h create_connect_args_always_present [OF h]
    by (simp add: sample_url_def)
qed

section \<open>Lemmas about the reflection methods\<close>

lemma traverse_Inr_iff:
  "traverse f xs = Inr ys \<longleftrightarrow> list_all2 (\<lambda>x y. f x = Inr y) xs ys"
proof (induction xs arbitrary: ys)
  case Nil
  then show ?case by auto
next
  case (Cons x xs)
  show ?case
    by (cases ys) (auto simp: and_then_Inr Cons.IH)
qed

lemma traverse_total:
  "\<forall>x \<in> set xs. \<exists>y. f x = Inr y \<Longrightarrow> \<exists>ys. traverse f xs = Inr ys"
  by (induction xs) auto

lemma traverse_row_attr:
  "\<forall>r \<in> set rows. map_of r k \<noteq> None \<Longrightarrow>
   traverse (\<lambda>r. row_attr r k) rows = Inr (map (\<lambda>r. the (map_of r k)) rows)"
  by (induction rows) (auto simp: row_attr_def)

lemma py_or_None:
  "py_or a b = None \<longleftrightarrow> (a = None \<or> a = Some []) \<and> b = None"
  by (auto simp: py_or_def truthy_str_def split: option.splits)

lemma get_table_names_raises:
  "py_or schema (default_schema c) = None \<Longrightarrow>
   get_table_names c schema = (Inl (NoSuchTableError ''schema is required''), c)"
  by (simp add: get_table_names_def p_get_default_schema_name_def)

lemma get_view_names_raises:
  "py_or schema (default_schema c) = None \<Longrightarrow>
   get_view_names c schema = (Inl (NoSuchTableError ''schema is required''), c)"
  by (simp add: get_view_names_def p_get_default_schema_name_def)

lemma get_table_names_returns:
  assumes "py_or schema (default_schema c) = Some s"
    and "server c (executed c) (table_names_query, [(''schema'', PStr s)]) = Inr rows"
    and "\<forall>r \<in> set rows. map_of r ''table_name'' \<noteq> None"
  shows "get_table_names c schema =
    (Inr (map (\<lambda>r. the (map_of r ''table_name'')) rows),
     c\<lparr>executed := executed c @ [(table_names_query, [(''schema'', PStr s)])]\<rparr>)"
  using assms(1,2) traverse_row_attr [OF assms(3)]
  by (simp add: get_table_names_def p_get_default_schema_name_def execute_def)

lemma get_view_names_returns:
  assumes "py_or schema (default_schema c) = Some s"
    and "server c (executed c) (view_names_query, [(''schema'', PStr s)]) = Inr rows"
    and "\<forall>r \<in> set rows. map_of r ''table_name'' \<noteq> None"
  shows "get_view_names c schema =
    (Inr (map (\<lambda>r. the (map_of r ''table_name'')) rows),
     c\<lparr>executed := executed c @ [(view_names_query, [(''schema'', PStr s)])]\<rparr>)"
  using assms(1,2) traverse_row_attr [OF assms(3)]
  by (simp add: get_view_names_def p_get_default_schema_name_def execute_def)

lemma has_table_default_schema:
  "has_table c table_name schema = (r, c1) \<Longrightarrow> default_schema c1 = default_schema c"
  by (auto simp: has_table_def execute_def split: option.splits sum.splits)

lemma has_table_True_schema:
  "has_table c table_name schema = (Inr True, c1) \<Longrightarrow>
   \<exists>s. py_or schema (default_schema c) = Some s"
  by (auto simp: has_table_def p_get_default_schema_name_def split: option.splits)

lemma get_columns_raises:
  assumes "fst (has_table c table_name schema) = Inr False"
  shows "get_columns parse_sqltype c table_name schema =
    (Inl (NoSuchTableError (''schema='' @ format_opt schema @ '', table='' @ table_name)),
     snd (has_table c table_name schema))"
proof (cases "has_table c table_name schema")
  case (Pair r c1)
  with assms show ?thesis by (simp add: get_columns_def)
qed

lemma column_of_record_Inr:
  "column_of_record parse_sqltype r = Inr col \<longleftrightarrow>
     (\<exists>d i. map_of r ''column_name'' = Some (col_name col) \<and>
        map_of r ''data_type'' = Some d \<and> parse_sqltype d = Inr (col_type col) \<and>
        map_of r ''is_nullable'' = Some i \<and> col_nullable col = (i = PStr ''YES'') \<and>
        map_of r ''column_default'' = Some (col_default col))"
  by (cases col) (auto simp: column_of_record_def row_attr_def and_then_Inr split: option.splits)

lemma column_of_record_total:
  assumes "map_of r ''column_name'' = Some n" "map_of r ''data_type'' = Some d"
    "parse_sqltype d = Inr t" "map_of r ''is_nullable'' = Some i"
    "map_of r ''column_default'' = Some dflt"
  shows "\<exists>col. column_of_record parse_sqltype r = Inr col"
  using assms by (simp add: column_of_record_def row_attr_def)

lemma get_columns_returns:
  assumes ht: "has_table c table_name schema = (Inr True, c1)"
    and s: "py_or schema (default_schema c) = Some s"
    and rows: "server c1 (executed c1)
        (columns_query, [(''schema'', PStr s), (''table'', PStr table_name)]) = Inr rows"
    and wf: "\<forall>r \<in> set rows. \<exists>n d t i dflt.
        map_of r ''column_name'' = Some n \<and> map_of r ''data_type'' = Some d \<and>
        parse_sqltype d = Inr t \<and> map_of r ''is_nullable'' = Some i \<and>
        map_of r ''column_default'' = Some dflt"
  shows "\<exists>cols.
    get_columns parse_sqltype c table_name schema =
      (Inr cols,
       c1\<lparr>executed := executed c1 @
         [(columns_query, [(''schema'', PStr s), (''table'', PStr table_name)])]\<rparr>) \<and>
    length cols = length rows \<and>
    (\<forall>j < length rows.
       col_nullable (cols ! j) = (map_of (rows ! j) ''is_nullable'' = Some (PStr ''YES'')) \<and>
       map_of (rows ! j) ''column_default'' = Some (col_default (cols ! j)) \<and>
       map_of (rows ! j) ''column_name'' = Some (col_name (cols ! j)))"
proof -
  from wf have "\<forall>r \<in> set rows. \<exists>col. column_of_record parse_sqltype r = Inr col"
    by (meson column_of_record_total)
  then obtain cols where cols: "traverse (column_of_record parse_sqltype) rows = Inr cols"
    using traverse_total by blast
  then have l2: "list_all2 (\<lambda>r col. column_of_record parse_sqltype r = Inr col) rows cols"
    by (simp add: traverse_Inr_iff)
  have ds: "default_schema c1 = default_schema c"
    using ht by (rule has_table_default_schema)
  have "get_columns parse_sqltype c table_name schema =
      (Inr cols,
       c1\<lparr>executed := executed c1 @
         [(columns_query, [(''schema'', PStr s), (''table'', PStr table_name)])]\<rparr>)"
    using ht s rows cols ds
    by (simp add: get_columns_def p_get_columns_def p_get_default_schema_name_def
        execute_def opt_str_def)
  moreover have "length cols = length rows"
    using l2 by (simp add: list_all2_lengthD)
  moreover have "col_nullable (cols ! j) = (map_of (rows ! j) ''is_nullable'' = Some (PStr ''YES'')) \<and>
       map_of (rows ! j) ''column_default'' = Some (col_default (cols ! j)) \<and>
       map_of (rows ! j) ''column_name'' = Some (col_name (cols ! j))" if "j < length rows" for j
  proof -
    from l2 that have "column_of_record parse_sqltype (rows ! j) = Inr (cols ! j)"
      by (rule list_all2_nthD)
    then show ?thesis by (auto simp: column_of_record_Inr)
  qed
  ultimately show ?thesis by blast
qed

lemma query_texts_distinct:
  "distinct [columns_query, table_names_query, view_names_query, has_table_query, version_query]"
  by (simp add: columns_query_def table_names_query_def view_names_query_def has_table_query_def
      version_query_def dq_def sq_def)

lemma sample_server_simps:
  "sample_server h (table_names_query, ps) =
     Inr [[(''table_name'', PStr ''orders'')], [(''table_name'', PStr ''lineitem'')]]"
  "sample_server h (view_names_query, ps) = Inr [[(''table_name'', PStr ''recent_orders'')]]"
  "sample_server h (has_table_query, ps) =
     (if ps = [(''schema'', PStr ''tiny''), (''table'', PStr ''orders'')]
      then Inr [[(''table_name'', PStr ''orders'')]] else Inr [])"
  "sample_server h (columns_query, ps) = Inr sample_columns"
  "sample_server h (version_query, ps) = Inr [[(''_col0'', PStr ''433'')]]"
  using query_texts_distinct by (auto simp: sample_server_def)

lemma sample_has_table:
  "has_table sample_connection ''orders'' (Some ''tiny'') =
     (Inr True, sample_connection\<lparr>executed :=
        [(has_table_query, [(''schema'', PStr ''tiny''), (''table'', PStr ''orders'')])]\<rparr>)"
  "has_table sample_connection ''nations'' (Some ''tiny'') =
     (Inr False, sample_connection\<lparr>executed :=
        [(has_table_query, [(''schema'', PStr ''tiny''), (''table'', PStr ''nations'')])]\<rparr>)"
  by (simp_all add: has_table_def py_or_def truthy_str_def execute_def first_def
      sample_server_simps sample_connection_def)

lemma vq_has_table: "version_queries (snd (has_table c t s)) = version_queries c"
  using query_texts_distinct
  by (auto simp: version_queries_def has_table_def execute_def split: option.splits sum.splits prod.splits)

lemma vq_p_get_columns: "version_queries (snd (p_get_columns p c t s)) = version_queries c"
  using query_texts_distinct
  by (auto simp: version_queries_def p_get_columns_def execute_def Let_def split: sum.splits)

lemma vq_get_columns: "version_queries (snd (get_columns p c t s)) = version_queries c"
proof (cases "has_table c t s")
  case (Pair r c1)
  then have c1: "version_queries c1 = version_queries c"
    using vq_has_table [of c t s] by simp
  show ?thesis
  proof (cases r)
    case (Inl e)
    with Pair c1 show ?thesis by (simp add: get_columns_def)
  next
    case (Inr b)
    with Pair c1 show ?thesis by (cases b) (simp_all add: get_columns_def vq_p_get_columns)
  qed
qed

lemma vq_get_table_names: "version_queries (snd (get_table_names c s)) = version_queries c"
  using query_texts_distinct
  by (auto simp: version_queries_def get_table_names_def execute_def split: option.splits sum.splits)

lemma vq_get_view_names: "version_queries (snd (get_view_names c s)) = version_queries c"
  using query_texts_distinct
  by (auto simp: version_queries_def get_view_names_def execute_def split: option.splits sum.splits)

lemma vq_on_connection:
  "(\<And>c. version_queries (snd (f c)) = version_queries c) \<Longrightarrow>
   version_queries (conns (on_connection r f w) r') = version_queries (conns w r')"
  by (simp add: on_connection_def)

lemma vq_perform:
  "call \<noteq> Read_server_version_info \<Longrightarrow>
   version_queries (conns (perform p w call) r) = version_queries (conns w r)"
  by (cases call)
    (simp_all add: vq_on_connection vq_has_table vq_get_columns vq_get_table_names
      vq_get_view_names p_get_server_version_info_def write_server_version_info_def
      get_pk_constraint_def get_primary_keys_def get_foreign_keys_def get_temp_table_names_def
      get_temp_view_names_def get_sequence_names_def get_unique_constraints_def
      get_check_constraints_def has_sequence_def split: class_attr.splits)

lemma vq_run:
  "Read_server_version_info \<notin> set calls \<Longrightarrow>
   version_queries (conns (foldl (perform p) w calls) r) = version_queries (conns w r)"
  by (induction calls arbitrary: w) (auto simp: vq_perform)

lemma read_server_version_info_returns:
  assumes "server_version_info w = Property connection"
    and "server (conns w connection) (executed (conns w connection)) (version_query, []) = Inr res"
  shows "read_server_version_info w =
    (Inr (PTuple [scalar res]),
     w\<lparr>conns := (conns w)(connection := (conns w connection)
        \<lparr>executed := executed (conns w connection) @ [(version_query, [])]\<rparr>)\<rparr>)"
  using assms by (simp add: read_server_version_info_def get_server_version_info_def execute_def)

lemma read_server_version_info_programming_error:
  assumes "server_version_info w = Property connection"
    and "server (conns w connection) (executed (conns w connection)) (version_query, []) =
           Inl (ProgrammingError (Some m))"
  shows "read_server_version_info w =
    (Inr PNone,
     w\<lparr>conns := (conns w)(connection := (conns w connection)
        \<lparr>executed := executed (conns w connection) @ [(version_query, [])]\<rparr>)\<rparr>)"
  using assms by (simp add: read_server_version_info_def get_server_version_info_def execute_def)

lemma read_server_version_info_no_message:
  assumes "server_version_info w = Property connection"
    and "server (conns w connection) (executed (conns w connection)) (version_query, []) =
           Inl (ProgrammingError None)"
  shows "read_server_version_info w =
    (Inl AttributeError,
     w\<lparr>conns := (conns w)(connection := (conns w connection)
        \<lparr>executed := executed (conns w connection) @ [(version_query, [])]\<rparr>)\<rparr>)"
  using assms by (simp add: read_server_version_info_def get_server_version_info_def execute_def)

section \<open>The claims about reflection\<close>

text \<open>
  C3. The features the engine does not support give empty or dummy results and leave
  the connection as it was, so that no statement is executed: \<open>get_foreign_keys\<close>,
  \<open>get_sequence_names\<close>, \<open>get_unique_constraints\<close>, \<open>get_check_constraints\<close>,
  \<open>get_temp_table_names\<close> and \<open>get_temp_view_names\<close> return the empty list,
  \<open>get_pk_constraint\<close> returns \<open>{name: None, constrained_columns: []}\<close>,
  \<open>get_primary_keys\<close> returns the empty list and \<open>has_sequence\<close> returns \<open>False\<close>.
\<close>

theorem unsupported_features_empty:
  "get_foreign_keys c table_name schema = (Inr [], c) \<and>
   get_sequence_names c schema = (Inr [], c) \<and>
   get_unique_constraints c table_name schema = (Inr [], c) \<and>
   get_check_constraints c table_name schema = (Inr [], c) \<and>
   get_temp_table_names c schema = (Inr [], c) \<and>
   get_temp_view_names c schema = (Inr [], c) \<and>
   get_pk_constraint c table_name schema =
     (Inr [(''name'', PNone), (''constrained_columns'', PList [])], c) \<and>
   get_primary_keys c table_name schema = (Inr (PList []), c) \<and>
   has_sequence c sequence_name schema = (Inr False, c)"
  by (simp add: get_foreign_keys_def get_sequence_names_def get_unique_constraints_def
      get_check_constraints_def get_temp_table_names_def get_temp_view_names_def
      get_pk_constraint_def get_primary_keys_def has_sequence_def)

text \<open>
  What holds of the lazy detection. \<open>_get_server_version_info\<close> returns \<open>None\<close>, leaves
  every connection as it was and installs the property. Reading the attribute once the
  property is installed executes \<open>SELECT version()\<close> on the connection of the getter and
  returns the one-element tuple of the scalar of the result, or \<open>None\<close> when the
  statement raises a \<open>ProgrammingError\<close> whose original error has a message. In a run
  of calls that starts with the installation and never reads the attribute, no
  connection executes a version query.
\<close>

lemma server_version_info_lazy:
  "p_get_server_version_info w connection =
     (PNone, w\<lparr>server_version_info := Property connection\<rparr>) \<and>
   conns (snd (p_get_server_version_info w connection)) = conns w \<and>
   (server_version_info w1 = Property connection \<and>
    server (conns w1 connection) (executed (conns w1 connection)) (version_query, []) = Inr res \<longrightarrow>
      read_server_version_info w1 =
        (Inr (PTuple [scalar res]),
         w1\<lparr>conns := (conns w1)(connection := (conns w1 connection)
            \<lparr>executed := executed (conns w1 connection) @ [(version_query, [])]\<rparr>)\<rparr>)) \<and>
   (server_version_info w1 = Property connection \<and>
    server (conns w1 connection) (executed (conns w1 connection)) (version_query, []) =
      Inl (ProgrammingError (Some m)) \<longrightarrow>
      read_server_version_info w1 =
        (Inr PNone,
         w1\<lparr>conns := (conns w1)(connection := (conns w1 connection)
            \<lparr>executed := executed (conns w1 connection) @ [(version_query, [])]\<rparr>)\<rparr>)) \<and>
   (Read_server_version_info \<notin> set calls \<longrightarrow>
      version_queries
        (conns (foldl (perform parse_sqltype) (snd (p_get_server_version_info w connection)) calls) r) =
      version_queries (conns w r))"
proof -
  have "Read_server_version_info \<notin> set calls \<Longrightarrow>
      version_queries
        (conns (foldl (perform parse_sqltype) (snd (p_get_server_version_info w connection)) calls) r) =
      version_queries (conns w r)"
    by (simp add: vq_run p_get_server_version_info_def)
  then show ?thesis
    using read_server_version_info_returns [of w1 connection res]
      read_server_version_info_programming_error [of w1 connection m]
    by (simp add: p_get_server_version_info_def)
qed

lemma server_version_info_lazy_sample:
  "fst (read_server_version_info (snd (p_get_server_version_info sample_world 0))) =
     Inr (PTuple [PStr ''433'']) \<and>
   executed (conns (snd (read_server_version_info (snd (p_get_server_version_info sample_world 0)))) 0) =
     [(version_query, [])] \<and>
   fst (read_server_version_info (snd (p_get_server_version_info sample_world 1))) = Inr PNone \<and>
   version_queries (conns
     (foldl (perform sample_parse_sqltype) (snd (p_get_server_version_info sample_world 0))
        [Get_table_names 0 (Some ''tiny''), Write_server_version_info (PStr ''1'')]) 0) = []"
  using
    server_version_info_lazy [of sample_world 0 "snd (p_get_server_version_info sample_world 0)"
      "[[(''_col0'', PStr ''433'')]]" _
      "[Get_table_names 0 (Some ''tiny''), Write_server_version_info (PStr ''1'')]"
      sample_parse_sqltype 0]
    server_version_info_lazy [of sample_world 1 "snd (p_get_server_version_info sample_world 1)"
      _ "''Access Denied''" "[]" sample_parse_sqltype 0]
  by (simp add: p_get_server_version_info_def sample_world_def sample_connection_def
      failing_connection_def sample_server_simps scalar_def version_queries_def)

text \<open>
  C5. Server-version detection is lazy, and the getter is to return \<open>None\<close> when the
  version query raises \<open>ProgrammingError\<close>. The code misses the second part when the
  original error has no message: on the third sample connection the version query
  raises such a \<open>ProgrammingError\<close>, and reading the attribute after the installation
  executes the query and raises \<open>AttributeError\<close> where \<open>None\<close> is due.
\<close>

theorem server_version_info_attribute_error:
  "server (conns sample_world 2) (executed (conns sample_world 2)) (version_query, []) =
     Inl (ProgrammingError None) \<and>
   executed (conns (snd (p_get_server_version_info sample_world 2)) 2) = [] \<and>
   fst (read_server_version_info (snd (p_get_server_version_info sample_world 2))) =
     Inl AttributeError \<and>
   executed (conns (snd (read_server_version_info
       (snd (p_get_server_version_info sample_world 2)))) 2) = [(version_query, [])]"
  by (simp add: p_get_server_version_info_def read_server_version_info_def
      get_server_version_info_def execute_def sample_world_def messageless_connection_def)

text \<open>
  C6. \<open>get_columns\<close> raises \<open>NoSuchTableError\<close> when \<open>has_table\<close> returns false.
  When \<open>has_table\<close> returns true and the connection answers the fixed
  \<open>information_schema.columns\<close> query (ordered by \<open>ordinal_position\<close>) for that schema
  and table with rows that have the four selected columns and a type that
  \<open>parse_sqltype\<close> accepts, \<open>get_columns\<close> returns one dictionary per row, in the order
  of the rows; \<open>nullable\<close> is true exactly when \<open>is_nullable\<close> of the row equals
  \<open>YES\<close>, and \<open>default\<close> is \<open>column_default\<close> of the row.
\<close>

theorem get_columns_spec:
  "(fst (has_table c table_name schema) = Inr False \<longrightarrow>
      get_columns parse_sqltype c table_name schema =
        (Inl (NoSuchTableError (''schema='' @ format_opt schema @ '', table='' @ table_name)),
         snd (has_table c table_name schema))) \<and>
   (has_table c table_name schema = (Inr True, c1) \<and>
    py_or schema (default_schema c) = Some s \<and>
    server c1 (executed c1)
      (columns_query, [(''schema'', PStr s), (''table'', PStr table_name)]) = Inr rows \<and>
    (\<forall>r \<in> set rows. \<exists>n d t i dflt.
        map_of r ''column_name'' = Some n \<and> map_of r ''data_type'' = Some d \<and>
        parse_sqltype d = Inr t \<and> map_of r ''is_nullable'' = Some i \<and>
        map_of r ''column_default'' = Some dflt) \<longrightarrow>
      (\<exists>cols.
         get_columns parse_sqltype c table_name schema =
           (Inr cols,
            c1\<lparr>executed := executed c1 @
              [(columns_query, [(''schema'', PStr s), (''table'', PStr table_name)])]\<rparr>) \<and>
         length cols = length rows \<and>
         (\<forall>j < length rows.
            col_nullable (cols ! j) =
              (map_of (rows ! j) ''is_nullable'' = Some (PStr ''YES'')) \<and>
            map_of (rows ! j) ''column_default'' = Some (col_default (cols ! j)) \<and>
            map_of (rows ! j) ''column_name'' = Some (col_name (cols ! j)))))"
  using get_columns_raises [of c table_name schema parse_sqltype]
    get_columns_returns [of c table_name schema c1 s rows parse_sqltype]
  by blast

theorem get_columns_spec_witness:
  "get_columns sample_parse_sqltype sample_connection ''nations'' (Some ''tiny'') =
     (Inl (NoSuchTableError ''schema=tiny, table=nations''),
      sample_connection\<lparr>executed :=
        [(has_table_query, [(''schema'', PStr ''tiny''), (''table'', PStr ''nations'')])]\<rparr>) \<and>
   (\<exists>cols.
      get_columns sample_parse_sqltype sample_connection ''orders'' (Some ''tiny'') =
        (Inr cols,
         sample_connection\<lparr>executed :=
           [(has_table_query, [(''schema'', PStr ''tiny''), (''table'', PStr ''orders'')]),
            (columns_query, [(''schema'', PStr ''tiny''), (''table'', PStr ''orders'')])]\<rparr>) \<and>
      length cols = 2 \<and>
      col_name (cols ! 0) = PStr ''orderkey'' \<and> col_nullable (cols ! 0) = False \<and>
      col_default (cols ! 0) = PNone \<and>
      col_name (cols ! 1) = PStr ''comment'' \<and> col_nullable (cols ! 1) = True \<and>
      col_default (cols ! 1) = PNone)"
proof -
  let ?c1 = "sample_connection\<lparr>executed :=
        [(has_table_query, [(''schema'', PStr ''tiny''), (''table'', PStr ''orders'')])]\<rparr>"
  have f: "fst (has_table sample_connection ''nations'' (Some ''tiny'')) = Inr False"
    by (simp add: sample_has_table)
  have t: "has_table sample_connection ''orders'' (Some ''tiny'') = (Inr True, ?c1)"
    by (simp add: sample_has_table)
  have s: "py_or (Some ''tiny'') (default_schema sample_connection) = Some ''tiny''"
    by (simp add: py_or_def truthy_str_def)
  have rows: "server ?c1 (executed ?c1)
      (columns_query, [(''schema'', PStr ''tiny''), (''table'', PStr ''orders'')]) = Inr sample_columns"
    by (simp add: sample_connection_def sample_server_simps)
  have wf: "\<forall>r \<in> set sample_columns. \<exists>n d t i dflt.
        map_of r ''column_name'' = Some n \<and> map_of r ''data_type'' = Some d \<and>
        sample_parse_sqltype d = Inr t \<and> map_of r ''is_nullable'' = Some i \<and>
        map_of r ''column_default'' = Some dflt"
    by (simp add: sample_columns_def sample_parse_sqltype_def)
  note spec1 = get_columns_spec [where c = sample_connection and table_name = "''nations''" and
        schema = "Some ''tiny''" and parse_sqltype = sample_parse_sqltype, THEN conjunct1, rule_format, OF f]
  note spec2 = get_columns_spec [where c = sample_connection and table_name = "''orders''" and
        schema = "Some ''tiny''" and ?c1.0 = ?c1 and s = "''tiny''" and rows = sample_columns and
        parse_sqltype = sample_parse_sqltype, THEN conjunct2, rule_format, OF conjI [OF t conjI [OF s conjI [OF rows wf]]]]
  have one: "get_columns sample_parse_sqltype sample_connection ''nations'' (Some ''tiny'') =
     (Inl (NoSuchTableError ''schema=tiny, table=nations''),
      sample_connection\<lparr>executed :=
        [(has_table_query, [(''schema'', PStr ''tiny''), (''table'', PStr ''nations'')])]\<rparr>)"
    using spec1 by (simp add: sample_has_table(2) format_opt_def)
  from spec2 obtain cols where
    eq: "get_columns sample_parse_sqltype sample_connection ''orders'' (Some ''tiny'') =
        (Inr cols, ?c1\<lparr>executed := executed ?c1 @
           [(columns_query, [(''schema'', PStr ''tiny''), (''table'', PStr ''orders'')])]\<rparr>)"
    and len: "length cols = length sample_columns"
    and each: "\<And>j. j < length sample_columns \<Longrightarrow>
            col_nullable (cols ! j) =
              (map_of (sample_columns ! j) ''is_nullable'' = Some (PStr ''YES'')) \<and>
            map_of (sample_columns ! j) ''column_default'' = Some (col_default (cols ! j)) \<and>
            map_of (sample_columns ! j) ''column_name'' = Some (col_name (cols ! j))"
    by blast
  have l2: "length sample_columns = 2" by (simp add: sample_columns_def)
  have e0: "col_name (cols ! 0) = PStr ''orderkey'' \<and> col_nullable (cols ! 0) = False \<and>
      col_default (cols ! 0) = PNone"
    using each [of 0] by (simp add: sample_columns_def)
  have e1: "col_name (cols ! 1) = PStr ''comment'' \<and> col_nullable (cols ! 1) = True \<and>
      col_default (cols ! 1) = PNone"
    using each [of 1] by (simp add: sample_columns_def)
  from eq have eq': "get_columns sample_parse_sqltype sample_connection ''orders'' (Some ''tiny'') =
        (Inr cols,
         sample_connection\<lparr>executed :=
           [(has_table_query, [(''schema'', PStr ''tiny''), (''table'', PStr ''orders'')]),
            (columns_query, [(''schema'', PStr ''tiny''), (''table'', PStr ''orders'')])]\<rparr>)"
    by simp
  show ?thesis
    using one eq' len l2 e0 e1 by auto
qed

text \<open>
  C7, as stated, fails: with the empty string for the schema, which is not \<open>None\<close>,
  and a connection without default schema, \<open>get_table_names\<close> raises
  \<open>NoSuchTableError\<close> and returns no table names, since \<open>schema or default\<close> takes the
  default for an empty schema.
\<close>

theorem get_table_names_counterexample:
  "default_schema sample_connection = None \<and>
   get_table_names sample_connection (Some '''') =
     (Inl (NoSuchTableError ''schema is required''), sample_connection)"
  by (simp add: get_table_names_def p_get_default_schema_name_def py_or_def truthy_str_def
      sample_connection_def)

text \<open>
  C7, amended. \<open>get_table_names\<close> and \<open>get_view_names\<close> raise \<open>NoSuchTableError\<close>
  when the given schema is \<open>None\<close> or empty and the connection has no default schema.
  Otherwise there is a schema to ask for, the given one or else the default, and each
  method returns exactly the \<open>table_name\<close> values of the rows with which the connection
  answers the fixed \<open>information_schema.tables\<close> query for that schema, restricted to the
  table type \<open>BASE TABLE\<close> for \<open>get_table_names\<close> and \<open>VIEW\<close> for \<open>get_view_names\<close>.
\<close>

theorem get_table_names_view_names:
  "((schema = None \<or> schema = Some []) \<and> default_schema c = None \<longrightarrow>
      get_table_names c schema = (Inl (NoSuchTableError ''schema is required''), c) \<and>
      get_view_names c schema = (Inl (NoSuchTableError ''schema is required''), c)) \<and>
   (\<not> ((schema = None \<or> schema = Some []) \<and> default_schema c = None) \<longrightarrow>
      (\<exists>s. py_or schema (default_schema c) = Some s)) \<and>
   (py_or schema (default_schema c) = Some s \<and>
    server c (executed c) (table_names_query, [(''schema'', PStr s)]) = Inr rows \<and>
    (\<forall>r \<in> set rows. map_of r ''table_name'' \<noteq> None) \<longrightarrow>
      get_table_names c schema =
        (Inr (map (\<lambda>r. the (map_of r ''table_name'')) rows),
         c\<lparr>executed := executed c @ [(table_names_query, [(''schema'', PStr s)])]\<rparr>)) \<and>
   (py_or schema (default_schema c) = Some s \<and>
    server c (executed c) (view_names_query, [(''schema'', PStr s)]) = Inr vrows \<and>
    (\<forall>r \<in> set vrows. map_of r ''table_name'' \<noteq> None) \<longrightarrow>
      get_view_names c schema =
        (Inr (map (\<lambda>r. the (map_of r ''table_name'')) vrows),
         c\<lparr>executed := executed c @ [(view_names_query, [(''schema'', PStr s)])]\<rparr>))"
  using get_table_names_raises [of schema c] get_view_names_raises [of schema c]
    get_table_names_returns [of schema c s rows] get_view_names_returns [of schema c s vrows]
    py_or_None [of schema "default_schema c"]
  by auto

theorem get_table_names_view_names_witness:
  "get_table_names sample_connection None =
     (Inl (NoSuchTableError ''schema is required''), sample_connection) \<and>
   get_view_names sample_connection None =
     (Inl (NoSuchTableError ''schema is required''), sample_connection) \<and>
   get_table_names sample_connection (Some ''tiny'') =
     (Inr [PStr ''orders'', PStr ''lineitem''],
      sample_connection\<lparr>executed := [(table_names_query, [(''schema'', PStr ''tiny'')])]\<rparr>) \<and>
   get_view_names sample_connection (Some ''tiny'') =
     (Inr [PStr ''recent_orders''],
      sample_connection\<lparr>executed := [(view_names_query, [(''schema'', PStr ''tiny'')])]\<rparr>)"
  using
    get_table_names_view_names [of None sample_connection]
    get_table_names_view_names [of "Some ''tiny''" sample_connection "''tiny''"
      "[[(''table_name'', PStr ''orders'')], [(''table_name'', PStr ''lineitem'')]]"
      "[[(''table_name'', PStr ''recent_orders'')]]"]
  by (simp add: py_or_def truthy_str_def sample_server_simps sample_connection_def)

end
